theory Spec2Isabelle
  imports Main "HOL-Library.AList"
begin

section \<open>JavaScript values\<close>

text \<open>
  The server passes parsed JSON from its two providers through to its callers and
  tests it with JavaScript's truthiness. A value is therefore one of the JSON values
  or \<open>undefined\<close> (what reading an absent property gives). Numbers are the integers
  the payloads carry (counts, scores, identifiers); an object is its list of
  properties, the first binding of a name being the property's value.
\<close>

datatype json =
    JUndefined
  | JNull
  | JBool bool
  | JNum int
  | JStr string
  | JArr "json list"
  | JObj "(string \<times> json) list"

text \<open>\<open>!v\<close> is false exactly for the truthy values: everything but \<open>undefined\<close>,
  \<open>null\<close>, \<open>false\<close>, \<open>0\<close> and the empty string.\<close>

fun truthy :: "json \<Rightarrow> bool" where
  "truthy JUndefined = False"
| "truthy JNull = False"
| "truthy (JBool b) = b"
| "truthy (JNum n) = (n \<noteq> 0)"
| "truthy (JStr s) = (s \<noteq> [])"
| "truthy (JArr xs) = True"
| "truthy (JObj kvs) = True"

text \<open>\<open>a || b\<close>.\<close>

definition js_or :: "json \<Rightarrow> json \<Rightarrow> json" where
  "js_or a b = (if truthy a then a else b)"

text \<open>What the source throws: \<open>new Error(message)\<close> of its own, the engine's
  \<open>TypeError\<close> on a read through \<open>undefined\<close> or \<open>null\<close>, the fetch library's error on
  a transport failure and the parser's on a body that is not JSON.\<close>

datatype js_error =
    Error string
  | TypeError string
  | FetchError string
  | SyntaxError string

text \<open>
  Property reads. The handlers read the names \<open>aggregates\<close>, \<open>matches\<close>, \<open>homeTeam\<close>,
  \<open>awayTeam\<close>, \<open>name\<close>, \<open>shortName\<close>, \<open>wins\<close>, \<open>draws\<close>, \<open>numberOfMatches\<close>, \<open>utcDate\<close>,
  \<open>score\<close>, \<open>fullTime\<close>, \<open>home\<close>, \<open>away\<close> and \<open>winner\<close>; none of them is inherited by
  an array, a string, a number or a boolean, so on those the read gives \<open>undefined\<close>.
  \<open>opt_member v n\<close> is \<open>v?.n\<close>; \<open>member_of v n\<close> is \<open>v.n\<close>, which throws on \<open>undefined\<close>
  and \<open>null\<close>.
\<close>

fun opt_member :: "json \<Rightarrow> string \<Rightarrow> json" where
  "opt_member (JObj kvs) n = (case map_of kvs n of None \<Rightarrow> JUndefined | Some v \<Rightarrow> v)"
| "opt_member v n = JUndefined"

definition member_of :: "json \<Rightarrow> string \<Rightarrow> js_error + json" where
  "member_of v n =
     (if v = JUndefined \<or> v = JNull
      then Inl (TypeError (''Cannot read properties of undefined or null (reading '' @ n @ '')''))
      else Inr (opt_member v n))"

text \<open>A number in a template literal: its decimal digits.\<close>

definition digit_char :: "nat \<Rightarrow> char" where
  "digit_char d = ''0123456789'' ! d"

function show_nat :: "nat \<Rightarrow> string" where
  "show_nat n = (if n < 10 then [digit_char n] else show_nat (n div 10) @ [digit_char (n mod 10)])"
  by pat_completeness auto
termination
  by (relation "measure (\<lambda>n. n)") auto

declare show_nat.simps [simp del]

definition show_int :: "int \<Rightarrow> string" where
  "show_int i = (if i < 0 then ''-'' @ show_nat (nat (- i)) else show_nat (nat i))"

section \<open>The providers, the clock and the server's state\<close>

text \<open>
  A request the server issues, and what comes back: the transport fails, or a response
  arrives with its status, its reason phrase and its body (\<open>None\<close> when the body does
  not parse as JSON).
\<close>

datatype request =
    FootballRequest string string
  | GuardianRequest string "(string \<times> json) list"

datatype 'b net_result =
    NetFailure string
  | NetReply nat string "'b option"

text \<open>
  The news provider's reply is modelled at the shape the handlers read: the parsed body
  with its \<open>response\<close> property (\<open>None\<close> when absent or falsy), whose \<open>results\<close> is an
  array when present and whose \<open>total\<close> is passed through.
\<close>

record search_response =
  resp_results :: "json list option"
  resp_total :: json

datatype guardian_data = GuardianData "search_response option"

text \<open>
  The environment of one run: the two credentials of \<open>process.env\<close>, the clock
  (\<open>clock n\<close> is what the \<open>n\<close>-th reading of \<open>Date.now()\<close> returns) and the providers
  (\<open>football_api n r\<close> is the outcome of \<open>r\<close> when it is the \<open>n\<close>-th request issued).
  Nothing is assumed about either: the clock need not advance and a provider may
  answer the same request differently each time.
\<close>

record environment =
  FOOTBALL_API_KEY :: "string option"
  GUARDIAN_API_KEY :: "string option"
  clock :: "nat \<Rightarrow> int"
  football_api :: "nat \<Rightarrow> request \<Rightarrow> json net_result"
  guardian_api :: "nat \<Rightarrow> request \<Rightarrow> guardian_data net_result"

text \<open>
  A slot of the \<open>cache\<close> object. \<open>timestamp\<close> and \<open>ttl\<close> are \<open>None\<close> when the property
  is \<open>null\<close> or absent. The property \<open>guardianArticles\<close> of \<open>cache\<close> holds the
  dictionary of article searches instead of a slot: its \<open>data\<close>, \<open>timestamp\<close> and \<open>ttl\<close>
  are absent, and its other properties are the field \<open>guardianArticles\<close> of the state,
  keyed by the query and the options the source joins into one string.
\<close>

record cache_entry =
  data :: json
  timestamp :: "int option"
  ttl :: "int option"

record article_entry =
  article_data :: search_response
  article_timestamp :: int

record server_state =
  cache :: "string \<rightharpoonup> cache_entry"
  guardianArticles :: "(string \<times> (string \<times> json) list) \<rightharpoonup> article_entry"
  clock_reads :: nat
  sent :: "request list"

definition slot :: "int \<Rightarrow> cache_entry" where
  "slot t = \<lparr>data = JNull, timestamp = None, ttl = Some t\<rparr>"

definition empty_object :: cache_entry where
  "empty_object = \<lparr>data = JUndefined, timestamp = None, ttl = None\<rparr>"

definition initial_cache :: "string \<rightharpoonup> cache_entry" where
  "initial_cache =
     [''standings'' \<mapsto> slot 300000,
      ''matches'' \<mapsto> slot 180000,
      ''scorers'' \<mapsto> slot 600000,
      ''teams'' \<mapsto> slot 3600000,
      ''competition'' \<mapsto> slot 86400000,
      ''standingsLast'' \<mapsto> slot 3600000,
      ''matchesLast'' \<mapsto> slot 3600000,
      ''guardianArticles'' \<mapsto> empty_object]"

definition initial_state :: server_state where
  "initial_state =
     \<lparr>cache = initial_cache, guardianArticles = Map.empty, clock_reads = 0, sent = []\<rparr>"

definition Date_now :: "environment \<Rightarrow> server_state \<Rightarrow> int \<times> server_state" where
  "Date_now env s = (clock env (clock_reads s), s\<lparr>clock_reads := Suc (clock_reads s)\<rparr>)"

section \<open>The cache\<close>

definition truthy_time :: "int option \<Rightarrow> bool" where
  "truthy_time t = (case t of None \<Rightarrow> False | Some n \<Rightarrow> n \<noteq> 0)"

text \<open>\<open>(Date.now() - timestamp) < ttl\<close>, false when \<open>ttl\<close> is absent.\<close>

definition within_ttl :: "int \<Rightarrow> int option \<Rightarrow> int option \<Rightarrow> bool" where
  "within_ttl now t l =
     (case (t, l) of (Some t', Some l') \<Rightarrow> now - t' < l' | _ \<Rightarrow> False)"

definition isCacheValid :: "environment \<Rightarrow> string \<Rightarrow> server_state \<Rightarrow> bool \<times> server_state" where
  "isCacheValid env cacheKey s =
     (case cache s cacheKey of
        None \<Rightarrow> (False, s)
      | Some cacheEntry \<Rightarrow>
          if \<not> truthy (data cacheEntry) \<or> \<not> truthy_time (timestamp cacheEntry) then (False, s)
          else (case Date_now env s of
                  (now, s') \<Rightarrow> (within_ttl now (timestamp cacheEntry) (ttl cacheEntry), s')))"

definition API_BASE :: string where
  "API_BASE = ''https://api.football-data.org/v4''"

definition response_ok :: "nat \<Rightarrow> bool" where
  "response_ok st = (200 \<le> st \<and> st \<le> 299)"

text \<open>The request of \<open>fetchFootballData\<close>: the URL and the \<open>X-Auth-Token\<close> header,
  \<open>apiKey || ''\<close>.\<close>

definition football_request :: "environment \<Rightarrow> string \<Rightarrow> request" where
  "football_request env endpoint =
     FootballRequest (API_BASE @ endpoint)
       (case FOOTBALL_API_KEY env of None \<Rightarrow> [] | Some k \<Rightarrow> k)"

definition fetchFootballData ::
  "environment \<Rightarrow> string \<Rightarrow> server_state \<Rightarrow> (js_error + json) \<times> server_state" where
  "fetchFootballData env endpoint s =
     (let req = football_request env endpoint;
          s' = s\<lparr>sent := sent s @ [req]\<rparr>
      in case football_api env (length (sent s)) req of
           NetFailure msg \<Rightarrow> (Inl (FetchError msg), s')
         | NetReply st reason body \<Rightarrow>
             if st = 403 then
               (Inl (Error ''API key required or rate limit exceeded. Get free key at: https://www.football-data.org/client/register''), s')
             else if st = 429 then
               (Inl (Error ''Rate limit exceeded. Wait a minute or add API key.''), s')
             else if \<not> response_ok st then
               (Inl (Error (''API returned '' @ show_nat st @ '': '' @ reason)), s')
             else (case body of
                     None \<Rightarrow> (Inl (SyntaxError ''invalid json response body''), s')
                   | Some d \<Rightarrow> (Inr d, s')))"

text \<open>
  The handlers call \<open>isCacheValid\<close> and \<open>getCachedOrFetch\<close> with the seven slot names
  and with \<open>head2head-\<close> followed by the match identifier; none of these is a name
  \<open>Object.prototype\<close> defines, so \<open>cache[cacheKey]\<close> is the key's own property, or
  \<open>undefined\<close>. A handler is modelled from its start to its answer: what another request
  does to the cache while this one awaits a provider is not part of the model.
\<close>

text \<open>
  \<open>getCachedOrFetch\<close>: a hit returns the slot's data; a miss fetches, and only after the
  fetch has returned creates the slot when the key has none (ttl 300000), writes the
  data and then the time read after the fetch. An error of the fetch leaves before any
  of these writes.
\<close>

definition getCachedOrFetch ::
  "environment \<Rightarrow> string \<Rightarrow> string \<Rightarrow> server_state \<Rightarrow> (js_error + json) \<times> server_state" where
  "getCachedOrFetch env cacheKey endpoint s =
     (case isCacheValid env cacheKey s of
        (True, s1) \<Rightarrow>
          (case cache s1 cacheKey of
             None \<Rightarrow> (Inl (TypeError ''Cannot read properties of undefined (reading data)''), s1)
           | Some e \<Rightarrow> (Inr (data e), s1))
      | (False, s1) \<Rightarrow>
          (case fetchFootballData env endpoint s1 of
             (Inl err, s2) \<Rightarrow> (Inl err, s2)
           | (Inr d, s2) \<Rightarrow>
               (let e = (case cache s2 cacheKey of
                           None \<Rightarrow> \<lparr>data = JNull, timestamp = None, ttl = Some 300000\<rparr>
                         | Some e' \<Rightarrow> e')
                in case Date_now env s2 of
                     (now, s3) \<Rightarrow>
                       (Inr d, s3\<lparr>cache := (cache s3)(cacheKey \<mapsto> e\<lparr>data := d, timestamp := Some now\<rparr>)\<rparr>))))"

text \<open>
  The cache-clear handler walks the own properties of \<open>cache\<close>: every slot gets
  \<open>data\<close> and \<open>timestamp\<close> set to \<open>null\<close> and keeps its \<open>ttl\<close>; the property
  \<open>guardianArticles\<close> is replaced by an empty object.
\<close>

record http_reply =
  reply_status :: nat
  reply_body :: json

definition cache_clear_handler :: "server_state \<Rightarrow> http_reply \<times> server_state" where
  "cache_clear_handler s =
     (\<lparr>reply_status = 200, reply_body = JObj [(''message'', JStr ''Cache cleared successfully'')]\<rparr>,
      s\<lparr>cache := (\<lambda>key. case cache s key of
                          None \<Rightarrow> None
                        | Some e \<Rightarrow>
                            if key = ''guardianArticles'' then Some empty_object
                            else Some (e\<lparr>data := JNull, timestamp := None\<rparr>)),
        guardianArticles := Map.empty\<rparr>)"

section \<open>The pass-through handlers of last season's data\<close>

text \<open>What \<open>new Date()\<close> gives the handler: the local year, the month counted from 0 and
  the day of the month.\<close>

record js_date =
  fullYear :: int
  month :: nat
  day_of_month :: nat

definition message :: "js_error \<Rightarrow> string" where
  "message e = (case e of Error m \<Rightarrow> m | TypeError m \<Rightarrow> m | FetchError m \<Rightarrow> m | SyntaxError m \<Rightarrow> m)"

definition failure_reply :: "string \<Rightarrow> js_error \<Rightarrow> http_reply" where
  "failure_reply what err =
     \<lparr>reply_status = 500, reply_body = JObj [(''error'', JStr what), (''details'', JStr (message err))]\<rparr>"

definition pass_through :: "string \<Rightarrow> (js_error + json) \<times> server_state \<Rightarrow> http_reply \<times> server_state" where
  "pass_through what r =
     (case r of
        (Inl err, s') \<Rightarrow> (failure_reply what err, s')
      | (Inr d, s') \<Rightarrow> (\<lparr>reply_status = 200, reply_body = d\<rparr>, s'))"

definition standings_last_handler ::
  "environment \<Rightarrow> js_date \<Rightarrow> server_state \<Rightarrow> http_reply \<times> server_state" where
  "standings_last_handler env today s =
     (let currentYear = fullYear today;
          currentMonth = month today;
          lastSeasonYear = (if currentMonth < 7 then currentYear - 2 else currentYear - 1)
      in pass_through ''Failed to fetch last season standings''
           (getCachedOrFetch env ''standingsLast''
              (''/competitions/PL/standings?season='' @ show_int lastSeasonYear) s))"

definition matches_last_handler ::
  "environment \<Rightarrow> js_date \<Rightarrow> server_state \<Rightarrow> http_reply \<times> server_state" where
  "matches_last_handler env today s =
     (let currentYear = fullYear today;
          currentMonth = month today;
          lastSeasonYear = (if currentMonth < 7 then currentYear - 2 else currentYear - 1)
      in pass_through ''Failed to fetch last season matches''
           (getCachedOrFetch env ''matchesLast''
              (''/competitions/PL/matches?season='' @ show_int lastSeasonYear) s))"

section \<open>The news-search client\<close>

definition GUARDIAN_API_BASE :: string where
  "GUARDIAN_API_BASE = ''https://content.guardianapis.com''"

text \<open>\<open>{...base, ...ps}\<close>: each property of \<open>ps\<close> in turn replaces the property of its
  name where it stands, or is added last.\<close>

definition spread :: "(string \<times> json) list \<Rightarrow> (string \<times> json) list \<Rightarrow> (string \<times> json) list" where
  "spread base ps = fold (\<lambda>(k, v). AList.update k v) ps base"

text \<open>\<open>!v\<close> of a variable of \<open>process.env\<close>: it is absent or the empty string.\<close>

definition falsy_param :: "string option \<Rightarrow> bool" where
  "falsy_param p = (case p of None \<Rightarrow> True | Some x \<Rightarrow> x = [])"

text \<open>The request of \<open>fetchGuardianData\<close>: the URL and its query parameters.\<close>

definition guardian_request :: "string \<Rightarrow> string \<Rightarrow> (string \<times> json) list \<Rightarrow> request" where
  "guardian_request guardianApiKey endpoint params =
     GuardianRequest (GUARDIAN_API_BASE @ endpoint)
       (spread [(''api-key'', JStr guardianApiKey),
                (''show-fields'', JStr ''headline,byline,trailText,body,thumbnail'')] params)"

text \<open>The body of the \<open>try\<close> block of \<open>fetchGuardianData\<close>, and the function with its
  \<open>catch\<close>, which turns every error into \<open>null\<close> (\<open>None\<close>).\<close>

definition fetchGuardianData_try ::
  "environment \<Rightarrow> string \<Rightarrow> (string \<times> json) list \<Rightarrow> server_state
     \<Rightarrow> (js_error + guardian_data option) \<times> server_state" where
  "fetchGuardianData_try env endpoint params s =
     (case GUARDIAN_API_KEY env of
        None \<Rightarrow> (Inr None, s)
      | Some guardianApiKey \<Rightarrow>
          if guardianApiKey = [] then (Inr None, s)
          else
            (let req = guardian_request guardianApiKey endpoint params;
                 s' = s\<lparr>sent := sent s @ [req]\<rparr>
             in case guardian_api env (length (sent s)) req of
                  NetFailure msg \<Rightarrow> (Inl (FetchError msg), s')
                | NetReply st reason body \<Rightarrow>
                    if \<not> response_ok st then (Inr None, s')
                    else (case body of
                            None \<Rightarrow> (Inl (SyntaxError ''invalid json response body''), s')
                          | Some d \<Rightarrow> (Inr (Some d), s'))))"

definition fetchGuardianData ::
  "environment \<Rightarrow> string \<Rightarrow> (string \<times> json) list \<Rightarrow> server_state
     \<Rightarrow> (js_error + guardian_data option) \<times> server_state" where
  "fetchGuardianData env endpoint params s =
     (case fetchGuardianData_try env endpoint params s of
        (Inl error, s') \<Rightarrow> (Inr None, s')
      | (Inr d, s') \<Rightarrow> (Inr d, s'))"

definition article_cache_hit :: "int \<Rightarrow> article_entry option \<Rightarrow> bool" where
  "article_cache_hit now entry =
     (case entry of
        None \<Rightarrow> False
      | Some e \<Rightarrow> article_timestamp e \<noteq> 0 \<and> now - article_timestamp e < 1800000)"

text \<open>
  \<open>searchGuardianArticles\<close>: the time is read once, first; a stored entry younger than
  30 minutes is returned; otherwise the provider is asked, and only a reply with a
  truthy \<open>response\<close> is stored (under the time read first) and returned.
\<close>

definition searchGuardianArticles ::
  "environment \<Rightarrow> string \<Rightarrow> (string \<times> json) list \<Rightarrow> server_state
     \<Rightarrow> (js_error + search_response option) \<times> server_state" where
  "searchGuardianArticles env query options s =
     (case Date_now env s of
        (now, s1) \<Rightarrow>
          if article_cache_hit now (guardianArticles s1 (query, options)) then
            (case guardianArticles s1 (query, options) of
               None \<Rightarrow> (Inl (TypeError ''Cannot read properties of undefined (reading data)''), s1)
             | Some e \<Rightarrow> (Inr (Some (article_data e)), s1))
          else
            (let params =
                   spread [(''q'', JStr query),
                           (''section'', JStr ''football''),
                           (''page-size'', js_or (opt_member (JObj options) ''pageSize'') (JNum 5))]
                     options
             in case fetchGuardianData env ''/search'' params s1 of
                  (Inl err, s2) \<Rightarrow> (Inl err, s2)
                | (Inr None, s2) \<Rightarrow> (Inr None, s2)
                | (Inr (Some (GuardianData None)), s2) \<Rightarrow> (Inr None, s2)
                | (Inr (Some (GuardianData (Some r))), s2) \<Rightarrow>
                    (Inr (Some r),
                     s2\<lparr>guardianArticles :=
                          (guardianArticles s2)((query, options) \<mapsto>
                             \<lparr>article_data = r, article_timestamp = now\<rparr>)\<rparr>)))"

section \<open>Query parameters\<close>

text \<open>
  What \<open>req.query\<close> holds for a parameter: nothing, a string, an array (\<open>homeTeam[]=a\<close>, or
  the parameter given twice) or an object (\<open>homeTeam[k]=a\<close>), arrays and objects nested.
  \<open>to_string\<close> is the text a value has in a template literal and as a property key: an
  array is its elements' texts joined by commas, an object is \<open>[object Object]\<close>.
  Only the empty string is falsy.
\<close>

datatype qvalue =
    QStr string
  | QArr "qvalue list"
  | QObj "(string \<times> qvalue) list"

fun join_comma :: "string list \<Rightarrow> string" where
  "join_comma [] = []"
| "join_comma [x] = x"
| "join_comma (x # y # ys) = x @ '','' @ join_comma (y # ys)"

fun to_string :: "qvalue \<Rightarrow> string" where
  "to_string (QStr s) = s"
| "to_string (QArr xs) = join_comma (map to_string xs)"
| "to_string (QObj kvs) = ''[object Object]''"

fun qtruthy :: "qvalue \<Rightarrow> bool" where
  "qtruthy (QStr s) = (s \<noteq> [])"
| "qtruthy (QArr xs) = True"
| "qtruthy (QObj kvs) = True"

definition falsy_query :: "qvalue option \<Rightarrow> bool" where
  "falsy_query p = (case p of None \<Rightarrow> True | Some v \<Rightarrow> \<not> qtruthy v)"

text \<open>A value or \<open>undefined\<close> in a template literal, and \<open>a || b\<close>.\<close>

definition template :: "qvalue option \<Rightarrow> string" where
  "template v = (case v of None \<Rightarrow> ''undefined'' | Some x \<Rightarrow> to_string x)"

definition or_val :: "qvalue option \<Rightarrow> qvalue option \<Rightarrow> qvalue option" where
  "or_val a b = (case a of None \<Rightarrow> b | Some x \<Rightarrow> if qtruthy x then a else b)"

section \<open>Team names\<close>

definition TEAM_NAME_VARIATIONS :: "(string \<times> string list) list" where
  "TEAM_NAME_VARIATIONS =
     [(''Man City'', [''Manchester City'', ''Man City'']),
      (''Man Utd'', [''Manchester United'', ''Man Utd'', ''Manchester Utd'']),
      (''Spurs'', [''Tottenham'', ''Spurs'', ''Tottenham Hotspur'']),
      (''Newcastle'', [''Newcastle'', ''Newcastle United'']),
      (''West Ham'', [''West Ham'', ''West Ham United'']),
      (''Wolves'', [''Wolves'', ''Wolverhampton'', ''Wolverhampton Wanderers'']),
      (''Brighton'', [''Brighton'', ''Brighton & Hove Albion'', ''Brighton and Hove Albion'']),
      (''Nott'm Forest'', [''Nottingham Forest'', ''Nott'm Forest'', ''Forest'']),
      (''Leicester'', [''Leicester'', ''Leicester City'']),
      (''Bournemouth'', [''Bournemouth'', ''AFC Bournemouth'']),
      (''Crystal Palace'', [''Crystal Palace'', ''Palace'']),
      (''Ipswich'', [''Ipswich'', ''Ipswich Town'']),
      (''Everton'', [''Everton'']),
      (''Arsenal'', [''Arsenal'']),
      (''Liverpool'', [''Liverpool'']),
      (''Chelsea'', [''Chelsea'']),
      (''Aston Villa'', [''Aston Villa'', ''Villa'']),
      (''Fulham'', [''Fulham'']),
      (''Brentford'', [''Brentford'']),
      (''Southampton'', [''Southampton''])]"

text \<open>
  \<open>TEAM_NAME_VARIATIONS[teamName]\<close> reads an object literal under the key that is the
  text of \<open>teamName\<close>, so a name the table does not hold is looked up in
  \<open>Object.prototype\<close>. The properties found there are functions (whose \<open>length\<close> is their
  number of parameters) and \<open>__proto__\<close>, which is \<open>Object.prototype\<close> itself and has no
  \<open>length\<close>; all are truthy and none has an element at any index. For such a name
  \<open>getTeamVariations\<close> returns that value instead of an array. For any other name that
  the table does not hold it returns \<open>[teamName]\<close>, the array of the value it was given.
\<close>

datatype variations =
    Variants "string list"
  | Inherited "nat option"
  | Unmapped qvalue

definition OBJECT_PROTOTYPE :: "(string \<times> nat option) list" where
  "OBJECT_PROTOTYPE =
     [(''constructor'', Some 1),
      (''__defineGetter__'', Some 2),
      (''__defineSetter__'', Some 2),
      (''hasOwnProperty'', Some 1),
      (''__lookupGetter__'', Some 1),
      (''__lookupSetter__'', Some 1),
      (''isPrototypeOf'', Some 1),
      (''propertyIsEnumerable'', Some 1),
      (''toString'', Some 0),
      (''valueOf'', Some 0),
      (''__proto__'', None),
      (''toLocaleString'', Some 0)]"

definition getTeamVariations :: "qvalue \<Rightarrow> variations" where
  "getTeamVariations teamName =
     (case map_of TEAM_NAME_VARIATIONS (to_string teamName) of
        Some variations \<Rightarrow> Variants variations
      | None \<Rightarrow>
          (case map_of OBJECT_PROTOTYPE (to_string teamName) of
             Some f \<Rightarrow> Inherited f
           | None \<Rightarrow> Unmapped teamName))"

text \<open>\<open>v.length\<close> and \<open>v[i]\<close> (\<open>None\<close> is \<open>undefined\<close>), \<open>v.length > 1\<close>, and
  \<open>i < Math.max(a, b)\<close>, which is false when a length is \<open>undefined\<close> and the maximum
  is \<open>NaN\<close>.\<close>

fun variations_length :: "variations \<Rightarrow> nat option" where
  "variations_length (Variants vs) = Some (length vs)"
| "variations_length (Inherited f) = f"
| "variations_length (Unmapped v) = Some 1"

fun variation_at :: "variations \<Rightarrow> nat \<Rightarrow> qvalue option" where
  "variation_at (Variants vs) i = (if i < length vs then Some (QStr (vs ! i)) else None)"
| "variation_at (Inherited f) i = None"
| "variation_at (Unmapped v) i = (if i = 0 then Some v else None)"

definition longer_than_one :: "variations \<Rightarrow> bool" where
  "longer_than_one v = (case variations_length v of None \<Rightarrow> False | Some n \<Rightarrow> 1 < n)"

definition loop_bound :: "variations \<Rightarrow> variations \<Rightarrow> nat" where
  "loop_bound hv av =
     (case (variations_length hv, variations_length av) of
        (Some m, Some n) \<Rightarrow> max m n
      | _ \<Rightarrow> 0)"

section \<open>The match-article search\<close>

definition dq :: string where
  "dq = [CHR 0x22]"

text \<open>The exact-phrase query \<open>"a" AND "b"\<close>.\<close>

definition quoted_and :: "string \<Rightarrow> string \<Rightarrow> string" where
  "quoted_and a b = dq @ a @ dq @ '' AND '' @ dq @ b @ dq"

text \<open>\<open>articles && articles.results && articles.results.length > 0\<close>.\<close>

definition has_articles :: "search_response option \<Rightarrow> bool" where
  "has_articles articles =
     (case articles of
        None \<Rightarrow> False
      | Some r \<Rightarrow> (case resp_results r of None \<Rightarrow> False | Some xs \<Rightarrow> 0 < length xs))"

definition found_reply :: "search_response option \<Rightarrow> string \<Rightarrow> http_reply" where
  "found_reply articles strategy =
     \<lparr>reply_status = 200,
      reply_body = JObj
        [(''success'', JBool True),
         (''articles'', (case articles of
                           None \<Rightarrow> JUndefined
                         | Some r \<Rightarrow> (case resp_results r of None \<Rightarrow> JUndefined | Some xs \<Rightarrow> JArr xs))),
         (''total'', (case articles of None \<Rightarrow> JUndefined | Some r \<Rightarrow> resp_total r)),
         (''searchStrategy'', JStr strategy)]\<rparr>"

definition none_reply :: http_reply where
  "none_reply =
     \<lparr>reply_status = 200,
      reply_body = JObj
        [(''success'', JBool True),
         (''articles'', JArr []),
         (''total'', JNum 0),
         (''searchStrategy'', JStr ''none''),
         (''message'', JStr ''No match articles found. The match may not have coverage yet, or try checking later.'')]\<rparr>"

definition searchOptions :: "qvalue option \<Rightarrow> (string \<times> json) list" where
  "searchOptions type =
     [(''tag'', JStr (if type = Some (QStr ''preview'')
                      then ''tone/minutebyminute,football/series/match-previews''
                      else ''tone/matchreports'')),
      (''page-size'', JNum 5),
      (''order-by'', JStr ''newest'')]"

text \<open>Strategy 4, the loop over the alternative variations from index \<open>i\<close> on, and what
  follows it.\<close>

function variation_loop ::
  "environment \<Rightarrow> (string \<times> json) list \<Rightarrow> variations \<Rightarrow> variations \<Rightarrow> nat \<Rightarrow> server_state
     \<Rightarrow> http_reply \<times> server_state" where
  "variation_loop env opts homeVariations awayVariations i s =
     (if i < loop_bound homeVariations awayVariations then
        (let homeAlt = or_val (variation_at homeVariations i) (variation_at homeVariations 0);
             awayAlt = or_val (variation_at awayVariations i) (variation_at awayVariations 0);
             query = quoted_and (template homeAlt) (template awayAlt)
         in case searchGuardianArticles env query opts s of
              (Inl err, s') \<Rightarrow> (failure_reply ''Failed to fetch Guardian articles'' err, s')
            | (Inr articles, s') \<Rightarrow>
                if has_articles articles
                then (found_reply articles (''variation-'' @ show_nat i), s')
                else variation_loop env opts homeVariations awayVariations (Suc i) s')
      else (none_reply, s))"
  by pat_completeness auto
termination
  by (relation "measure (\<lambda>(env, opts, hv, av, i, s). loop_bound hv av - i)") auto

declare variation_loop.simps [simp del]

text \<open>Strategy 3 and what follows it.\<close>

definition unquoted_step ::
  "environment \<Rightarrow> (string \<times> json) list \<Rightarrow> variations \<Rightarrow> variations \<Rightarrow> server_state
     \<Rightarrow> http_reply \<times> server_state" where
  "unquoted_step env opts homeVariations awayVariations s =
     (let query = template (variation_at homeVariations 0) @ '' ''
                    @ template (variation_at awayVariations 0)
      in case searchGuardianArticles env query opts s of
           (Inl err, s') \<Rightarrow> (failure_reply ''Failed to fetch Guardian articles'' err, s')
         | (Inr articles, s') \<Rightarrow>
             if has_articles articles then (found_reply articles ''unquoted'', s')
             else variation_loop env opts homeVariations awayVariations 1 s')"

text \<open>Strategy 2 and what follows it.\<close>

definition full_names_step ::
  "environment \<Rightarrow> (string \<times> json) list \<Rightarrow> qvalue \<Rightarrow> qvalue \<Rightarrow> variations \<Rightarrow> variations
     \<Rightarrow> server_state \<Rightarrow> http_reply \<times> server_state" where
  "full_names_step env opts homeTeam awayTeam homeVariations awayVariations s =
     (if longer_than_one homeVariations \<or> longer_than_one awayVariations then
        (let fullHomeName = variation_at homeVariations 0;
             fullAwayName = variation_at awayVariations 0
         in if fullHomeName \<noteq> Some homeTeam \<or> fullAwayName \<noteq> Some awayTeam then
              (let query = quoted_and (template fullHomeName) (template fullAwayName)
               in case searchGuardianArticles env query opts s of
                    (Inl err, s') \<Rightarrow> (failure_reply ''Failed to fetch Guardian articles'' err, s')
                  | (Inr articles, s') \<Rightarrow>
                      if has_articles articles then (found_reply articles ''full-names'', s')
                      else unquoted_step env opts homeVariations awayVariations s')
            else unquoted_step env opts homeVariations awayVariations s)
      else unquoted_step env opts homeVariations awayVariations s)"

text \<open>The handler of \<open>GET /api/guardian/match\<close>: strategy 1 and what follows it, behind
  the test \<open>!homeTeam || !awayTeam\<close>.\<close>

definition bad_request :: "string \<Rightarrow> http_reply" where
  "bad_request what = \<lparr>reply_status = 400, reply_body = JObj [(''error'', JStr what)]\<rparr>"

definition guardian_match_search ::
  "environment \<Rightarrow> qvalue \<Rightarrow> qvalue \<Rightarrow> qvalue option \<Rightarrow> server_state
     \<Rightarrow> http_reply \<times> server_state" where
  "guardian_match_search env homeTeam awayTeam type s =
     (let opts = searchOptions type;
          homeVariations = getTeamVariations homeTeam;
          awayVariations = getTeamVariations awayTeam;
          query = quoted_and (to_string homeTeam) (to_string awayTeam)
      in case searchGuardianArticles env query opts s of
           (Inl err, s') \<Rightarrow> (failure_reply ''Failed to fetch Guardian articles'' err, s')
         | (Inr articles, s') \<Rightarrow>
             if has_articles articles then (found_reply articles ''exact'', s')
             else full_names_step env opts homeTeam awayTeam homeVariations awayVariations s')"

definition guardian_match_handler ::
  "environment \<Rightarrow> qvalue option \<Rightarrow> qvalue option \<Rightarrow> qvalue option \<Rightarrow> server_state
     \<Rightarrow> http_reply \<times> server_state" where
  "guardian_match_handler env homeTeam awayTeam type s =
     (if falsy_query homeTeam \<or> falsy_query awayTeam
      then (bad_request ''homeTeam and awayTeam parameters required'', s)
      else (case (homeTeam, awayTeam) of
              (Some h, Some a) \<Rightarrow> guardian_match_search env h a type s
            | _ \<Rightarrow> (bad_request ''homeTeam and awayTeam parameters required'', s)))"

section \<open>Head-to-head\<close>

definition bind_err :: "js_error + 'a \<Rightarrow> ('a \<Rightarrow> js_error + 'b) \<Rightarrow> js_error + 'b" where
  "bind_err r f = (case r of Inl e \<Rightarrow> Inl e | Inr v \<Rightarrow> f v)"

text \<open>\<open>xs.map(f)\<close> where \<open>f\<close> may throw: the first error leaves the loop.\<close>

fun map_err :: "('a \<Rightarrow> js_error + 'b) \<Rightarrow> 'a list \<Rightarrow> js_error + 'b list" where
  "map_err f [] = Inr []"
| "map_err f (x # xs) = bind_err (f x) (\<lambda>y. bind_err (map_err f xs) (\<lambda>ys. Inr (y # ys)))"

text \<open>The arrow function of \<open>recentMatches\<close>: its reads throw where a match lacks
  \<open>homeTeam\<close>, \<open>awayTeam\<close>, \<open>score\<close> or \<open>score.fullTime\<close>.\<close>

definition team_label :: "json \<Rightarrow> js_error + json" where
  "team_label team =
     bind_err (member_of team ''shortName'') (\<lambda>shortName.
       if truthy shortName then Inr shortName else member_of team ''name'')"

definition recentMatch :: "json \<Rightarrow> js_error + json" where
  "recentMatch m =
     bind_err (member_of m ''utcDate'') (\<lambda>date.
     bind_err (bind_err (member_of m ''homeTeam'') team_label) (\<lambda>home.
     bind_err (bind_err (member_of m ''awayTeam'') team_label) (\<lambda>away.
     bind_err (bind_err (bind_err (member_of m ''score'') (\<lambda>sc. member_of sc ''fullTime''))
                 (\<lambda>ft. member_of ft ''home'')) (\<lambda>homeScore.
     bind_err (bind_err (bind_err (member_of m ''score'') (\<lambda>sc. member_of sc ''fullTime''))
                 (\<lambda>ft. member_of ft ''away'')) (\<lambda>awayScore.
     bind_err (bind_err (member_of m ''score'') (\<lambda>sc. member_of sc ''winner'')) (\<lambda>winner.
       Inr (JObj [(''date'', date),
                  (''homeTeam'', home),
                  (''awayTeam'', away),
                  (''homeScore'', homeScore),
                  (''awayScore'', awayScore),
                  (''winner'', winner)])))))))"

text \<open>\<open>data.matches.slice(0, 5).map(...)\<close> on the truthy \<open>data.matches\<close>: only an array has
  both methods.\<close>

definition recentMatches :: "json \<Rightarrow> js_error + json" where
  "recentMatches matches =
     (case matches of
        JArr ms \<Rightarrow> bind_err (map_err recentMatch (take 5 ms)) (\<lambda>rs. Inr (JArr rs))
      | _ \<Rightarrow> Inl (TypeError ''data.matches.slice(...).map is not a function''))"

definition head2head_stats :: "json \<Rightarrow> js_error + json" where
  "head2head_stats d =
     (let aggregates = opt_member d ''aggregates'';
          homeTeam = opt_member (opt_member aggregates ''homeTeam'') ''name'';
          awayTeam = opt_member (opt_member aggregates ''awayTeam'') ''name''
      in bind_err (recentMatches (opt_member d ''matches'')) (\<lambda>recent.
           Inr (JObj
             [(''homeTeam'', JObj
                 [(''name'', homeTeam),
                  (''wins'', js_or (opt_member (opt_member aggregates ''homeTeam'') ''wins'') (JNum 0)),
                  (''draws'', js_or (opt_member aggregates ''draws'') (JNum 0)),
                  (''losses'', js_or (opt_member (opt_member aggregates ''awayTeam'') ''wins'') (JNum 0))]),
              (''awayTeam'', JObj
                 [(''name'', awayTeam),
                  (''wins'', js_or (opt_member (opt_member aggregates ''awayTeam'') ''wins'') (JNum 0)),
                  (''draws'', js_or (opt_member aggregates ''draws'') (JNum 0)),
                  (''losses'', js_or (opt_member (opt_member aggregates ''homeTeam'') ''wins'') (JNum 0))]),
              (''totalMatches'', js_or (opt_member aggregates ''numberOfMatches'') (JNum 0)),
              (''recentMatches'', recent)])))"

text \<open>What the handler answers once the payload is there.\<close>

definition head2head_reply :: "json \<Rightarrow> http_reply" where
  "head2head_reply d =
     (if truthy d \<and> truthy (opt_member d ''matches'') then
        (case head2head_stats d of
           Inl err \<Rightarrow> failure_reply ''Failed to fetch head-to-head data'' err
         | Inr stats \<Rightarrow>
             \<lparr>reply_status = 200,
              reply_body = JObj [(''success'', JBool True),
                                 (''stats'', stats),
                                 (''allMatches'', opt_member d ''matches'')]\<rparr>)
      else
        \<lparr>reply_status = 200,
         reply_body = JObj [(''success'', JBool True),
                            (''stats'', JNull),
                            (''message'', JStr ''No previous meetings found between these teams'')]\<rparr>)"

text \<open>The handler of \<open>GET /api/head2head/:matchId\<close>; \<open>matchId\<close> is the route parameter,
  a string, and \<open>limit\<close> the query parameter, \<open>req.query.limit || 10\<close>. The cache key is
  built from \<open>matchId\<close>, the endpoint from \<open>matchId\<close> and \<open>limit\<close>.\<close>

definition head2head_key :: "string \<Rightarrow> string" where
  "head2head_key matchId = ''head2head-'' @ matchId"

definition head2head_endpoint :: "string \<Rightarrow> qvalue option \<Rightarrow> string" where
  "head2head_endpoint matchId limit_param =
     (let limit = (if falsy_query limit_param then ''10'' else template limit_param)
      in ''/matches/'' @ matchId @ ''/head2head?limit='' @ limit)"

definition head2head_handler ::
  "environment \<Rightarrow> string \<Rightarrow> qvalue option \<Rightarrow> server_state \<Rightarrow> http_reply \<times> server_state" where
  "head2head_handler env matchId limit_param s =
     (if matchId = [] then (bad_request ''matchId parameter required'', s)
      else (case getCachedOrFetch env (head2head_key matchId)
                   (head2head_endpoint matchId limit_param) s of
              (Inl err, s') \<Rightarrow> (failure_reply ''Failed to fetch head-to-head data'' err, s')
            | (Inr d, s') \<Rightarrow> (head2head_reply d, s')))"

section \<open>The specification's statements, as definitions\<close>

text \<open>
  The specification's cache invariant, in its own words: an entry is valid iff its value
  is present, its time of storage is present, and \<open>now - storedAt < ttl\<close>. A value is
  present when it is a value at all, that is neither \<open>null\<close> nor \<open>undefined\<close>.
\<close>

definition is_present :: "json \<Rightarrow> bool" where
  "is_present v = (v \<noteq> JUndefined \<and> v \<noteq> JNull)"

definition spec_entry_valid :: "cache_entry option \<Rightarrow> int \<Rightarrow> bool" where
  "spec_entry_valid entry now =
     (case entry of
        None \<Rightarrow> False
      | Some e \<Rightarrow>
          is_present (data e) \<and> timestamp e \<noteq> None \<and> within_ttl now (timestamp e) (ttl e))"

text \<open>An upstream call fails when the transport fails, the status is not a success, or
  the body does not parse.\<close>

definition upstream_fails :: "'b net_result \<Rightarrow> bool" where
  "upstream_fails r =
     (case r of
        NetFailure msg \<Rightarrow> True
      | NetReply st reason body \<Rightarrow> \<not> response_ok st \<or> body = None)"




text \<open>The keys the \<open>cache\<close> object is created with; every other key is created on
  demand.\<close>

definition preregistered_keys :: "string list" where
  "preregistered_keys =
     [''standings'', ''matches'', ''scorers'', ''teams'', ''competition'', ''standingsLast'',
      ''matchesLast'', ''guardianArticles'']"

text \<open>
  The team-name resolver and the match-article search, in the specification's words.
  \<open>variantsFor\<close> is the table's list for a name the table holds and the name alone
  otherwise; the preferred variant is the first; the \<open>i\<close>-th variant falls back to the
  preferred one when the list is too short. The plan lists the strategies in their
  order, each with its name and its query: exact, full-names (only if a preferred
  variant differs from the name supplied), unquoted, and variation-\<open>i\<close> for \<open>i\<close> from 1 to
  the longest list's length minus one.
\<close>

definition spec_variantsFor :: "string \<Rightarrow> string list" where
  "spec_variantsFor name =
     (case map_of TEAM_NAME_VARIATIONS name of Some vs \<Rightarrow> vs | None \<Rightarrow> [name])"

definition spec_preferred :: "string \<Rightarrow> string" where
  "spec_preferred name = hd (spec_variantsFor name)"

definition spec_ith_variant :: "string \<Rightarrow> nat \<Rightarrow> string" where
  "spec_ith_variant name i =
     (if i < length (spec_variantsFor name) then spec_variantsFor name ! i
      else spec_preferred name)"

definition spec_exact_phrases :: "string \<Rightarrow> string \<Rightarrow> string" where
  "spec_exact_phrases a b =
     [CHR 0x22] @ a @ [CHR 0x22] @ '' AND '' @ [CHR 0x22] @ b @ [CHR 0x22]"

definition spec_strategy_plan :: "string \<Rightarrow> string \<Rightarrow> (string \<times> string) list" where
  "spec_strategy_plan home away =
     [(''exact'', spec_exact_phrases home away)]
     @ (if spec_preferred home \<noteq> home \<or> spec_preferred away \<noteq> away
        then [(''full-names'', spec_exact_phrases (spec_preferred home) (spec_preferred away))]
        else [])
     @ [(''unquoted'', spec_preferred home @ '' '' @ spec_preferred away)]
     @ map (\<lambda>i. (''variation-'' @ show_nat i,
                  spec_exact_phrases (spec_ith_variant home i) (spec_ith_variant away i)))
         [1 ..< max (length (spec_variantsFor home)) (length (spec_variantsFor away))]"

text \<open>
  What the search returns: the articles, their total and the name of the strategy that
  found them. The plan is run in its order over a search function; the first strategy
  whose result has at least one article gives the answer and no later strategy is
  searched; when there is none the answer is the empty list, total 0 and \<open>none\<close>.
\<close>

record spec_answer =
  answer_articles :: "json list"
  answer_total :: json
  answer_strategy :: string

definition spec_articles :: "search_response option \<Rightarrow> json list" where
  "spec_articles result =
     (case result of
        None \<Rightarrow> []
      | Some r \<Rightarrow> (case resp_results r of None \<Rightarrow> [] | Some xs \<Rightarrow> xs))"

definition spec_total :: "search_response option \<Rightarrow> json" where
  "spec_total result = (case result of None \<Rightarrow> JUndefined | Some r \<Rightarrow> resp_total r)"

fun spec_first_hit ::
  "(string \<Rightarrow> 'st \<Rightarrow> search_response option \<times> 'st) \<Rightarrow> (string \<times> string) list \<Rightarrow> 'st
     \<Rightarrow> spec_answer \<times> 'st" where
  "spec_first_hit search [] s =
     (\<lparr>answer_articles = [], answer_total = JNum 0, answer_strategy = ''none''\<rparr>, s)"
| "spec_first_hit search ((name, query) # rest) s =
     (case search query s of
        (result, s') \<Rightarrow>
          if spec_articles result = [] then spec_first_hit search rest s'
          else (\<lparr>answer_articles = spec_articles result, answer_total = spec_total result,
                 answer_strategy = name\<rparr>, s'))"

text \<open>The search function of the plan: the news-search client with the options of the
  kind (the tag of previews or of reports, page size 5, newest first); a failure of the
  client counts as no result.\<close>

definition spec_options :: "qvalue option \<Rightarrow> (string \<times> json) list" where
  "spec_options kind =
     (if kind = Some (QStr ''preview'')
      then [(''tag'', JStr ''tone/minutebyminute,football/series/match-previews''),
            (''page-size'', JNum 5), (''order-by'', JStr ''newest'')]
      else [(''tag'', JStr ''tone/matchreports''),
            (''page-size'', JNum 5), (''order-by'', JStr ''newest'')])"

definition spec_search ::
  "environment \<Rightarrow> qvalue option \<Rightarrow> string \<Rightarrow> server_state
     \<Rightarrow> search_response option \<times> server_state" where
  "spec_search env kind query s =
     (case searchGuardianArticles env query (spec_options kind) s of
        (Inl err, s') \<Rightarrow> (None, s')
      | (Inr result, s') \<Rightarrow> (result, s'))"

text \<open>The answer an HTTP reply carries: status 200, \<open>success: true\<close>, and the three
  fields.\<close>

definition answer_of :: "http_reply \<Rightarrow> spec_answer option" where
  "answer_of r =
     (if reply_status r = 200 \<and> opt_member (reply_body r) ''success'' = JBool True then
        (case (opt_member (reply_body r) ''articles'', opt_member (reply_body r) ''searchStrategy'') of
           (JArr xs, JStr name) \<Rightarrow>
             Some \<lparr>answer_articles = xs, answer_total = opt_member (reply_body r) ''total'',
                   answer_strategy = name\<rparr>
         | _ \<Rightarrow> None)
      else None)"

text \<open>A name the table does not hold and \<open>Object.prototype\<close> defines, and the query a
  request to the news provider carries.\<close>

definition inherited_name :: "string \<Rightarrow> bool" where
  "inherited_name name =
     (map_of TEAM_NAME_VARIATIONS name = None \<and> map_of OBJECT_PROTOTYPE name \<noteq> None)"

definition request_query :: "request \<Rightarrow> json" where
  "request_query r =
     (case r of
        FootballRequest url token \<Rightarrow> JUndefined
      | GuardianRequest url params \<Rightarrow> opt_member (JObj params) ''q'')"

section \<open>Example runs\<close>

text \<open>A match-data provider that answers every request with the JSON body \<open>0\<close>, and one
  that answers with a standings object; the clock starts at 1000 and advances by one
  at each reading.\<close>

definition env_zero :: environment where
  "env_zero =
     \<lparr>FOOTBALL_API_KEY = Some ''k'', GUARDIAN_API_KEY = None,
      clock = (\<lambda>n. 1000 + int n),
      football_api = (\<lambda>n r. NetReply 200 ''OK'' (Some (JNum 0))),
      guardian_api = (\<lambda>n r. NetFailure ''unreachable'')\<rparr>"

definition state_zero :: server_state where
  "state_zero =
     snd (getCachedOrFetch env_zero ''standings'' ''/competitions/PL/standings'' initial_state)"

definition env_ok :: environment where
  "env_ok =
     \<lparr>FOOTBALL_API_KEY = Some ''k'', GUARDIAN_API_KEY = None,
      clock = (\<lambda>n. 1000 + int n),
      football_api = (\<lambda>n r. NetReply 200 ''OK'' (Some (JObj [(''standings'', JArr [])]))),
      guardian_api = (\<lambda>n r. NetFailure ''unreachable'')\<rparr>"

definition state_ok :: server_state where
  "state_ok =
     snd (getCachedOrFetch env_ok ''standings'' ''/competitions/PL/standings'' initial_state)"

text \<open>A match-data provider that answers every request with status 429.\<close>

definition env_limited :: environment where
  "env_limited =
     \<lparr>FOOTBALL_API_KEY = None, GUARDIAN_API_KEY = None,
      clock = (\<lambda>n. 1000 + int n),
      football_api = (\<lambda>n r. NetReply 429 ''Too Many Requests'' None),
      guardian_api = (\<lambda>n r. NetFailure ''unreachable'')\<rparr>"

text \<open>The state after a first head-to-head fetch that the provider answered with \<open>0\<close>.\<close>

definition state_h2h_zero :: server_state where
  "state_h2h_zero =
     snd (getCachedOrFetch env_zero ''head2head-42'' ''/matches/42/head2head?limit=10''
            initial_state)"

text \<open>Head-to-head payloads: six meetings with the aggregates of the specification's
  example, and the payload of two teams that never met.\<close>

definition example_match :: "int \<Rightarrow> json" where
  "example_match n =
     JObj [(''utcDate'', JStr ''2024-03-09''),
           (''homeTeam'', JObj [(''name'', JStr ''Arsenal FC''), (''shortName'', JStr ''Arsenal'')]),
           (''awayTeam'', JObj [(''name'', JStr ''Chelsea FC'')]),
           (''score'', JObj [(''winner'', JStr ''HOME_TEAM''),
                             (''fullTime'', JObj [(''home'', JNum n), (''away'', JNum 0)])])]"

definition example_head2head :: json where
  "example_head2head =
     JObj [(''aggregates'', JObj [(''homeTeam'', JObj [(''wins'', JNum 3)]),
                                  (''awayTeam'', JObj [(''wins'', JNum 2)]),
                                  (''draws'', JNum 1),
                                  (''numberOfMatches'', JNum 6)]),
           (''matches'', JArr (map example_match [1, 2, 3, 4, 5, 6]))]"

definition env_h2h :: environment where
  "env_h2h =
     \<lparr>FOOTBALL_API_KEY = Some ''k'', GUARDIAN_API_KEY = None,
      clock = (\<lambda>n. 1000 + int n),
      football_api = (\<lambda>n r. NetReply 200 ''OK'' (Some example_head2head)),
      guardian_api = (\<lambda>n r. NetFailure ''unreachable'')\<rparr>"

definition state_h2h :: server_state where
  "state_h2h = snd (head2head_handler env_h2h ''42'' None initial_state)"

definition no_meetings_payload :: json where
  "no_meetings_payload =
     JObj [(''aggregates'', JObj [(''numberOfMatches'', JNum 0),
                                  (''homeTeam'', JObj [(''wins'', JNum 0)]),
                                  (''awayTeam'', JObj [(''wins'', JNum 0)]),
                                  (''draws'', JNum 0)]),
           (''matches'', JArr [])]"

definition env_no_meetings :: environment where
  "env_no_meetings =
     \<lparr>FOOTBALL_API_KEY = Some ''k'', GUARDIAN_API_KEY = None,
      clock = (\<lambda>n. 1000 + int n),
      football_api = (\<lambda>n r. NetReply 200 ''OK'' (Some no_meetings_payload)),
      guardian_api = (\<lambda>n r. NetFailure ''unreachable'')\<rparr>"





text \<open>A news provider that answers every request with status 500.\<close>

definition env_guardian_down :: environment where
  "env_guardian_down =
     \<lparr>FOOTBALL_API_KEY = None, GUARDIAN_API_KEY = Some ''g'',
      clock = (\<lambda>n. 1000 + int n),
      football_api = (\<lambda>n r. NetFailure ''unreachable''),
      guardian_api = (\<lambda>n r. NetReply 500 ''Internal Server Error'' None)\<rparr>"

text \<open>A news provider that has no article for any query.\<close>

definition env_no_articles :: environment where
  "env_no_articles =
     \<lparr>FOOTBALL_API_KEY = None, GUARDIAN_API_KEY = Some ''g'',
      clock = (\<lambda>n. 1000 + int n),
      football_api = (\<lambda>n r. NetFailure ''unreachable''),
      guardian_api = (\<lambda>n r.
        NetReply 200 ''OK''
          (Some (GuardianData (Some \<lparr>resp_results = Some [], resp_total = JNum 0\<rparr>))))\<rparr>"

text \<open>A news provider with no article for the first two searches and one for the third.\<close>

definition example_article :: json where
  "example_article = JObj [(''webTitle'', JStr ''Spurs 2-2 Man Utd'')]"

definition env_unquoted :: environment where
  "env_unquoted =
     \<lparr>FOOTBALL_API_KEY = None, GUARDIAN_API_KEY = Some ''g'',
      clock = (\<lambda>n. 1000 + int n),
      football_api = (\<lambda>n r. NetFailure ''unreachable''),
      guardian_api = (\<lambda>n r.
        if n = 2
        then NetReply 200 ''OK''
               (Some (GuardianData (Some \<lparr>resp_results = Some [example_article], resp_total = JNum 1\<rparr>)))
        else NetReply 200 ''OK''
               (Some (GuardianData (Some \<lparr>resp_results = Some [], resp_total = JNum 0\<rparr>))))\<rparr>"

section \<open>The cache: validity and hits\<close>

lemmas cache_eval =
  getCachedOrFetch_def isCacheValid_def initial_state_def initial_cache_def slot_def
  fetchFootballData_def Date_now_def response_ok_def Let_def truthy_time_def within_ttl_def
  API_BASE_def football_request_def

lemma state_zero_eq:
  "state_zero =
     \<lparr>cache = initial_cache(''standings'' \<mapsto>
                 \<lparr>data = JNum 0, timestamp = Some 1000, ttl = Some 300000\<rparr>),
      guardianArticles = Map.empty, clock_reads = 1,
      sent = [FootballRequest ''https://api.football-data.org/v4/competitions/PL/standings'' ''k'']\<rparr>"
  by (simp add: state_zero_def cache_eval env_zero_def)

lemma state_ok_eq:
  "state_ok =
     \<lparr>cache = initial_cache(''standings'' \<mapsto>
                 \<lparr>data = JObj [(''standings'', JArr [])], timestamp = Some 1000, ttl = Some 300000\<rparr>),
      guardianArticles = Map.empty, clock_reads = 1,
      sent = [FootballRequest ''https://api.football-data.org/v4/competitions/PL/standings'' ''k'']\<rparr>"
  by (simp add: state_ok_def cache_eval env_ok_def)

lemma isCacheValid_cache [simp]: "cache (snd (isCacheValid env k s)) = cache s"
  by (simp add: isCacheValid_def Date_now_def split: option.splits)

lemma isCacheValid_sent [simp]: "sent (snd (isCacheValid env k s)) = sent s"
  by (simp add: isCacheValid_def Date_now_def split: option.splits)

lemma isCacheValid_articles [simp]:
  "guardianArticles (snd (isCacheValid env k s)) = guardianArticles s"
  by (simp add: isCacheValid_def Date_now_def split: option.splits)

lemma isCacheValid_iff:
  "fst (isCacheValid env k s) =
     (\<exists>e t l. cache s k = Some e \<and> truthy (data e) \<and> timestamp e = Some t \<and> t \<noteq> 0
        \<and> ttl e = Some l \<and> clock env (clock_reads s) - t < l)"
  by (auto simp add: isCacheValid_def Date_now_def truthy_time_def within_ttl_def
      split: option.splits)

lemma cache_hit:
  assumes "fst (isCacheValid env k s)"
  shows "\<exists>e. cache s k = Some e \<and> fst (getCachedOrFetch env k ep s) = Inr (data e)
           \<and> sent (snd (getCachedOrFetch env k ep s)) = sent s
           \<and> cache (snd (getCachedOrFetch env k ep s)) = cache s"
proof -
  obtain b s1 where v: "isCacheValid env k s = (b, s1)"
    by (cases "isCacheValid env k s")
  with assms have b: "b" by simp
  from v have c: "cache s1 = cache s" and st: "sent s1 = sent s"
    using isCacheValid_cache[of env k s] isCacheValid_sent[of env k s] by simp_all
  from assms obtain e where e: "cache s k = Some e"
    by (auto simp: isCacheValid_iff)
  show ?thesis using v b c st e by (simp add: getCachedOrFetch_def)
qed

text \<open>
  C2, as the specification states it, fails: after the provider answered with the JSON
  body \<open>0\<close>, the slot holds that value and the time it was stored, and the time read is
  within the ttl, yet \<open>isCacheValid\<close> is false, because \<open>!cacheEntry.data\<close> is true of
  \<open>0\<close>, and the next get asks the provider again.
\<close>

theorem C2_present_entry_invalid_counterexample:
  "spec_entry_valid (cache state_zero ''standings'') (clock env_zero (clock_reads state_zero))
   \<and> \<not> fst (isCacheValid env_zero ''standings'' state_zero)
   \<and> sent (snd (getCachedOrFetch env_zero ''standings'' ''/competitions/PL/standings'' state_zero))
       = sent state_zero
           @ [FootballRequest ''https://api.football-data.org/v4/competitions/PL/standings'' ''k'']"
proof -
  have 1: "spec_entry_valid (cache state_zero ''standings'')
             (clock env_zero (clock_reads state_zero))"
    by (simp add: state_zero_eq spec_entry_valid_def is_present_def within_ttl_def env_zero_def)
  have 2: "\<not> fst (isCacheValid env_zero ''standings'' state_zero)"
    by (simp add: state_zero_eq isCacheValid_def)
  have 3: "sent (snd (getCachedOrFetch env_zero ''standings'' ''/competitions/PL/standings''
                        state_zero))
       = sent state_zero
           @ [FootballRequest ''https://api.football-data.org/v4/competitions/PL/standings'' ''k'']"
    by (simp add: state_zero_eq getCachedOrFetch_def isCacheValid_def fetchFootballData_def
        Date_now_def response_ok_def Let_def API_BASE_def football_request_def env_zero_def)
  show ?thesis using 1 2 3 by simp
qed

text \<open>
  C2, amended: for every key, \<open>isCacheValid\<close> is true iff the key has a slot whose data
  is truthy (not \<open>null\<close>, \<open>undefined\<close>, \<open>false\<close>, \<open>0\<close> or the empty string), whose timestamp
  is set and not 0, and the time read minus the timestamp is strictly less than the
  slot's ttl; and whenever it is true, \<open>getCachedOrFetch\<close> returns the stored data,
  issues no request and leaves the cache as it was.
\<close>

theorem C2_valid_iff_truthy_and_fresh:
  "fst (isCacheValid env k s) =
     (\<exists>e t l. cache s k = Some e \<and> truthy (data e) \<and> timestamp e = Some t \<and> t \<noteq> 0
        \<and> ttl e = Some l \<and> clock env (clock_reads s) - t < l)
   \<and> (fst (isCacheValid env k s) \<longrightarrow>
        (\<exists>e. cache s k = Some e \<and> fst (getCachedOrFetch env k ep s) = Inr (data e)
           \<and> sent (snd (getCachedOrFetch env k ep s)) = sent s
           \<and> cache (snd (getCachedOrFetch env k ep s)) = cache s))"
  using isCacheValid_iff[of env k s] cache_hit[of env k s ep] by blast

theorem C2_valid_iff_truthy_and_fresh_witness:
  "fst (isCacheValid env_ok ''standings'' state_ok)
   \<and> fst (getCachedOrFetch env_ok ''standings'' ''/competitions/PL/standings'' state_ok)
       = Inr (JObj [(''standings'', JArr [])])
   \<and> sent (snd (getCachedOrFetch env_ok ''standings'' ''/competitions/PL/standings'' state_ok))
       = sent state_ok"
proof -
  have v: "fst (isCacheValid env_ok ''standings'' state_ok)"
    by (simp add: state_ok_eq isCacheValid_def env_ok_def Date_now_def truthy_time_def
        within_ttl_def)
  have e: "cache state_ok ''standings''
             = Some \<lparr>data = JObj [(''standings'', JArr [])], timestamp = Some 1000,
                     ttl = Some 300000\<rparr>"
    by (simp add: state_ok_eq)
  from C2_valid_iff_truthy_and_fresh
         [of env_ok "''standings''" state_ok "''/competitions/PL/standings''"] v e
  show ?thesis by auto
qed

section \<open>The cache: failed and first fetches\<close>

lemma fetch_cache [simp]: "cache (snd (fetchFootballData env ep s)) = cache s"
  by (simp add: fetchFootballData_def Let_def split: net_result.splits option.splits)

lemma fetch_articles [simp]: "guardianArticles (snd (fetchFootballData env ep s)) = guardianArticles s"
  by (simp add: fetchFootballData_def Let_def split: net_result.splits option.splits)

lemma fetch_reads [simp]: "clock_reads (snd (fetchFootballData env ep s)) = clock_reads s"
  by (simp add: fetchFootballData_def Let_def split: net_result.splits option.splits)

lemma fetch_sent [simp]:
  "sent (snd (fetchFootballData env ep s)) = sent s @ [football_request env ep]"
  by (simp add: fetchFootballData_def football_request_def Let_def split: net_result.splits option.splits)

lemma fetch_fails_iff:
  "(\<exists>err. fst (fetchFootballData env ep s) = Inl err)
     = upstream_fails (football_api env (length (sent s)) (football_request env ep))"
  by (auto simp add: fetchFootballData_def football_request_def upstream_fails_def Let_def response_ok_def
      split: net_result.splits option.splits)

lemma fetch_only_sent: "sent s = sent t \<Longrightarrow> fst (fetchFootballData env ep s) = fst (fetchFootballData env ep t)"
  by (simp add: fetchFootballData_def Let_def split: net_result.splits option.splits)

lemma miss_state:
  assumes "\<not> fst (isCacheValid env k s)"
  shows "getCachedOrFetch env k ep s =
     (case fetchFootballData env ep (snd (isCacheValid env k s)) of
             (Inl err, s2) \<Rightarrow> (Inl err, s2)
           | (Inr d, s2) \<Rightarrow>
               (let e = (case cache s2 k of
                           None \<Rightarrow> \<lparr>data = JNull, timestamp = None, ttl = Some 300000\<rparr>
                         | Some e' \<Rightarrow> e')
                in case Date_now env s2 of
                     (now, s3) \<Rightarrow>
                       (Inr d, s3\<lparr>cache := (cache s3)(k \<mapsto> e\<lparr>data := d, timestamp := Some now\<rparr>)\<rparr>)))"
proof -
  obtain b s1 where v: "isCacheValid env k s = (b, s1)" by (cases "isCacheValid env k s")
  with assms have "\<not> b" by simp
  with v show ?thesis by (simp add: getCachedOrFetch_def)
qed

lemma miss_failure:
  assumes "\<not> fst (isCacheValid env k s)"
    and "fst (fetchFootballData env ep (snd (isCacheValid env k s))) = Inl err"
  shows "fst (getCachedOrFetch env k ep s) = Inl err"
    and "cache (snd (getCachedOrFetch env k ep s)) = cache s"
    and "guardianArticles (snd (getCachedOrFetch env k ep s)) = guardianArticles s"
proof -
  obtain r s2 where f: "fetchFootballData env ep (snd (isCacheValid env k s)) = (r, s2)"
    by (cases "fetchFootballData env ep (snd (isCacheValid env k s))")
  with assms(2) have r: "r = Inl err" by simp
  have c: "cache s2 = cache s" and g: "guardianArticles s2 = guardianArticles s"
    using fetch_cache[of env ep "snd (isCacheValid env k s)"] fetch_articles[of env ep "snd (isCacheValid env k s)"] f by simp_all
  show "fst (getCachedOrFetch env k ep s) = Inl err"
    and "cache (snd (getCachedOrFetch env k ep s)) = cache s"
    and "guardianArticles (snd (getCachedOrFetch env k ep s)) = guardianArticles s"
    using miss_state[OF assms(1), of ep] f r c g by simp_all
qed

lemma miss_success:
  assumes "\<not> fst (isCacheValid env k s)"
    and "fst (fetchFootballData env ep (snd (isCacheValid env k s))) = Inr d"
  shows "fst (getCachedOrFetch env k ep s) = Inr d"
proof -
  obtain r s2 where f: "fetchFootballData env ep (snd (isCacheValid env k s)) = (r, s2)"
    by (cases "fetchFootballData env ep (snd (isCacheValid env k s))")
  with assms(2) have r: "r = Inr d" by simp
  show ?thesis using miss_state[OF assms(1), of ep] f r by (simp add: Date_now_def Let_def)
qed

lemma error_keeps_cache:
  assumes "fst (getCachedOrFetch env k ep s) = Inl err"
  shows "cache (snd (getCachedOrFetch env k ep s)) = cache s"
proof (cases "fst (isCacheValid env k s)")
  case True
  from cache_hit[OF True, of ep] assms show ?thesis by auto
next
  case False
  show ?thesis
  proof (cases "fst (fetchFootballData env ep (snd (isCacheValid env k s)))")
    case (Inl e)
    from miss_failure(2)[OF False Inl] show ?thesis .
  next
    case (Inr d)
    from miss_success[OF False Inr] assms show ?thesis by simp
  qed
qed

lemma isCacheValid_miss_sent_fetch:
  "fst (fetchFootballData env ep (snd (isCacheValid env k s))) = fst (fetchFootballData env ep s)"
  by (rule fetch_only_sent) simp

text \<open>
  C3: when the key's entry is not valid and the fetch fails (the transport fails, the
  status is 403, 429 or any other non-success, or the body does not parse),
  \<open>getCachedOrFetch\<close> returns that very error and the cache (every slot, with its data,
  timestamp and ttl, and the article dictionary) is what it was before the call; and
  whenever \<open>getCachedOrFetch\<close> returns an error the cache is unchanged, so no failure is
  ever stored.
\<close>

theorem C3_failed_fetch_propagates_and_stores_nothing:
  "(\<not> fst (isCacheValid env k s)
      \<and> fst (fetchFootballData env ep (snd (isCacheValid env k s))) = Inl err
      \<longrightarrow> fst (getCachedOrFetch env k ep s) = Inl err
          \<and> cache (snd (getCachedOrFetch env k ep s)) = cache s
          \<and> guardianArticles (snd (getCachedOrFetch env k ep s)) = guardianArticles s)
   \<and> (\<not> fst (isCacheValid env k s)
      \<and> upstream_fails (football_api env (length (sent s)) (football_request env ep))
      \<longrightarrow> (\<exists>e. fst (getCachedOrFetch env k ep s) = Inl e)
          \<and> cache (snd (getCachedOrFetch env k ep s)) = cache s)
   \<and> (\<forall>e. fst (getCachedOrFetch env k ep s) = Inl e
      \<longrightarrow> cache (snd (getCachedOrFetch env k ep s)) = cache s)"
proof (intro conjI impI allI)
  assume a: "\<not> fst (isCacheValid env k s)
      \<and> fst (fetchFootballData env ep (snd (isCacheValid env k s))) = Inl err"
  then show "fst (getCachedOrFetch env k ep s) = Inl err"
    and "cache (snd (getCachedOrFetch env k ep s)) = cache s"
    and "guardianArticles (snd (getCachedOrFetch env k ep s)) = guardianArticles s"
    using miss_failure[of env k s ep err] by simp_all
next
  assume a: "\<not> fst (isCacheValid env k s)
      \<and> upstream_fails (football_api env (length (sent s)) (football_request env ep))"
  then obtain e where e: "fst (fetchFootballData env ep s) = Inl e"
    using fetch_fails_iff[of env ep s] by blast
  then have e': "fst (fetchFootballData env ep (snd (isCacheValid env k s))) = Inl e"
    by (simp add: isCacheValid_miss_sent_fetch)
  from a e' show "\<exists>e. fst (getCachedOrFetch env k ep s) = Inl e"
    using miss_failure(1)[of env k s ep e] by blast
  from a e' show "cache (snd (getCachedOrFetch env k ep s)) = cache s"
    using miss_failure(2)[of env k s ep e] by blast
next
  fix e assume "fst (getCachedOrFetch env k ep s) = Inl e"
  then show "cache (snd (getCachedOrFetch env k ep s)) = cache s"
    by (rule error_keeps_cache)
qed

theorem C3_failed_fetch_witness:
  "\<not> fst (isCacheValid env_limited ''standings'' initial_state)
   \<and> upstream_fails (football_api env_limited (length (sent initial_state))
        (football_request env_limited ''/competitions/PL/standings''))
   \<and> fst (getCachedOrFetch env_limited ''standings'' ''/competitions/PL/standings'' initial_state)
       = Inl (Error ''Rate limit exceeded. Wait a minute or add API key.'')
   \<and> cache (snd (getCachedOrFetch env_limited ''standings'' ''/competitions/PL/standings'' initial_state))
       = cache initial_state"
proof -
  have v: "\<not> fst (isCacheValid env_limited ''standings'' initial_state)"
    by (simp add: isCacheValid_def initial_state_def initial_cache_def slot_def)
  have u: "upstream_fails (football_api env_limited (length (sent initial_state))
        (football_request env_limited ''/competitions/PL/standings''))"
    by (simp add: upstream_fails_def env_limited_def response_ok_def)
  have f: "fst (fetchFootballData env_limited ''/competitions/PL/standings''
                  (snd (isCacheValid env_limited ''standings'' initial_state)))
             = Inl (Error ''Rate limit exceeded. Wait a minute or add API key.'')"
    by (simp add: isCacheValid_miss_sent_fetch fetchFootballData_def env_limited_def Let_def)
  from C3_failed_fetch_propagates_and_stores_nothing
         [of env_limited "''standings''" initial_state "''/competitions/PL/standings''"
             "Error ''Rate limit exceeded. Wait a minute or add API key.''"] v u f
  show ?thesis by blast
qed

lemma no_slot_invalid: "cache s k = None \<Longrightarrow> isCacheValid env k s = (False, s)"
  by (simp add: isCacheValid_def)

lemma first_fetch_creates_slot:
  assumes "cache s k = None" and "fst (fetchFootballData env ep s) = Inr d"
  shows "fst (getCachedOrFetch env k ep s) = Inr d"
    and "cache (snd (getCachedOrFetch env k ep s)) k
           = Some \<lparr>data = d, timestamp = Some (clock env (clock_reads s)), ttl = Some 300000\<rparr>"
proof -
  obtain r s2 where f: "fetchFootballData env ep s = (r, s2)"
    by (cases "fetchFootballData env ep s")
  with assms(2) have r: "r = Inr d" by simp
  have c: "cache s2 = cache s" and n: "clock_reads s2 = clock_reads s"
    using fetch_cache[of env ep s] fetch_reads[of env ep s] f by simp_all
  show "fst (getCachedOrFetch env k ep s) = Inr d"
    using assms(1) f r c n by (simp add: getCachedOrFetch_def no_slot_invalid Date_now_def Let_def)
  show "cache (snd (getCachedOrFetch env k ep s)) k
           = Some \<lparr>data = d, timestamp = Some (clock env (clock_reads s)), ttl = Some 300000\<rparr>"
    using assms(1) f r c n by (simp add: getCachedOrFetch_def no_slot_invalid Date_now_def Let_def)
qed

lemma later_hit:
  assumes "cache s2 k = Some \<lparr>data = d, timestamp = Some t, ttl = Some l\<rparr>"
    and "truthy d" and "t \<noteq> 0" and "clock env (clock_reads s2) - t < l"
  shows "fst (getCachedOrFetch env k ep2 s2) = Inr d"
    and "sent (snd (getCachedOrFetch env k ep2 s2)) = sent s2"
proof -
  have v: "fst (isCacheValid env k s2)"
    using assms by (simp add: isCacheValid_iff)
  from cache_hit[OF v, of ep2] assms(1)
  show "fst (getCachedOrFetch env k ep2 s2) = Inr d"
    and "sent (snd (getCachedOrFetch env k ep2 s2)) = sent s2" by auto
qed

text \<open>
  C9, amended: for a key with no slot, a miss followed by a successful fetch returns the
  fetched value and creates the slot with ttl 300000 (5 minutes), the fetched value and
  the time read after the fetch; and when the fetched value is truthy and that time is
  not 0, every later get at which the slot is unchanged and the time read minus the
  stored time is below the ttl returns the stored value and issues no request.
\<close>

theorem C9_dynamic_key_created_with_default_ttl:
  "cache s k = None \<and> fst (fetchFootballData env ep s) = Inr d \<longrightarrow>
     fst (getCachedOrFetch env k ep s) = Inr d
     \<and> cache (snd (getCachedOrFetch env k ep s)) k
         = Some \<lparr>data = d, timestamp = Some (clock env (clock_reads s)), ttl = Some 300000\<rparr>
     \<and> (\<forall>s2 ep2.
          cache s2 k = cache (snd (getCachedOrFetch env k ep s)) k
          \<and> truthy d \<and> clock env (clock_reads s) \<noteq> 0
          \<and> clock env (clock_reads s2) - clock env (clock_reads s) < 300000
          \<longrightarrow> fst (getCachedOrFetch env k ep2 s2) = Inr d
              \<and> sent (snd (getCachedOrFetch env k ep2 s2)) = sent s2)"
proof (intro impI)
  assume a: "cache s k = None \<and> fst (fetchFootballData env ep s) = Inr d"
  then have n: "cache s k = None" and f: "fst (fetchFootballData env ep s) = Inr d" by simp_all
  note st = first_fetch_creates_slot[OF n f]
  show "fst (getCachedOrFetch env k ep s) = Inr d
     \<and> cache (snd (getCachedOrFetch env k ep s)) k
         = Some \<lparr>data = d, timestamp = Some (clock env (clock_reads s)), ttl = Some 300000\<rparr>
     \<and> (\<forall>s2 ep2.
          cache s2 k = cache (snd (getCachedOrFetch env k ep s)) k
          \<and> truthy d \<and> clock env (clock_reads s) \<noteq> 0
          \<and> clock env (clock_reads s2) - clock env (clock_reads s) < 300000
          \<longrightarrow> fst (getCachedOrFetch env k ep2 s2) = Inr d
              \<and> sent (snd (getCachedOrFetch env k ep2 s2)) = sent s2)"
  proof (intro conjI allI impI)
    show "fst (getCachedOrFetch env k ep s) = Inr d" by (rule st(1))
    show "cache (snd (getCachedOrFetch env k ep s)) k
         = Some \<lparr>data = d, timestamp = Some (clock env (clock_reads s)), ttl = Some 300000\<rparr>"
      by (rule st(2))
  next
    fix s2 :: server_state and ep2 :: string
    assume b: "cache s2 k = cache (snd (getCachedOrFetch env k ep s)) k
          \<and> truthy d \<and> clock env (clock_reads s) \<noteq> 0
          \<and> clock env (clock_reads s2) - clock env (clock_reads s) < 300000"
    then have e: "cache s2 k = Some \<lparr>data = d, timestamp = Some (clock env (clock_reads s)), ttl = Some 300000\<rparr>"
      using st(2) by simp
    from later_hit(1)[OF e, of env ep2] b show "fst (getCachedOrFetch env k ep2 s2) = Inr d" by simp
    from later_hit(2)[OF e, of env ep2] b show "sent (snd (getCachedOrFetch env k ep2 s2)) = sent s2" by simp
  qed
qed

lemma state_h2h_zero_eq:
  "state_h2h_zero =
     \<lparr>cache = initial_cache(''head2head-42'' \<mapsto>
                 \<lparr>data = JNum 0, timestamp = Some 1000, ttl = Some 300000\<rparr>),
      guardianArticles = Map.empty, clock_reads = 1,
      sent = [FootballRequest ''https://api.football-data.org/v4/matches/42/head2head?limit=10'' ''k'']\<rparr>"
  by (simp add: state_h2h_zero_def cache_eval env_zero_def)

text \<open>
  C9, as stated, fails: the provider answers the first head-to-head fetch with the JSON
  body \<open>0\<close>; the slot is created and holds it, the next get comes one millisecond
  later, and it is a miss that asks the provider again.
\<close>

theorem C9_falsy_value_refetched_counterexample:
  "cache initial_state ''head2head-42'' = None
   \<and> fst (getCachedOrFetch env_zero ''head2head-42'' ''/matches/42/head2head?limit=10'' initial_state)
       = Inr (JNum 0)
   \<and> cache state_h2h_zero ''head2head-42''
       = Some \<lparr>data = JNum 0, timestamp = Some 1000, ttl = Some 300000\<rparr>
   \<and> clock env_zero (clock_reads state_h2h_zero) - 1000 < 300000
   \<and> \<not> fst (isCacheValid env_zero ''head2head-42'' state_h2h_zero)
   \<and> sent (snd (getCachedOrFetch env_zero ''head2head-42'' ''/matches/42/head2head?limit=10''
                  state_h2h_zero))
       = sent state_h2h_zero
           @ [FootballRequest ''https://api.football-data.org/v4/matches/42/head2head?limit=10'' ''k'']"
proof -
  have 1: "cache initial_state ''head2head-42'' = None"
    by (simp add: initial_state_def initial_cache_def)
  have 2: "fst (getCachedOrFetch env_zero ''head2head-42'' ''/matches/42/head2head?limit=10'' initial_state)
       = Inr (JNum 0)"
    by (simp add: cache_eval env_zero_def)
  have 3: "sent (snd (getCachedOrFetch env_zero ''head2head-42'' ''/matches/42/head2head?limit=10''
                  state_h2h_zero))
       = sent state_h2h_zero
           @ [FootballRequest ''https://api.football-data.org/v4/matches/42/head2head?limit=10'' ''k'']"
    by (simp add: state_h2h_zero_eq getCachedOrFetch_def isCacheValid_def
      fetchFootballData_def Date_now_def response_ok_def Let_def truthy_time_def within_ttl_def
      API_BASE_def football_request_def env_zero_def)
  have 4: "\<not> fst (isCacheValid env_zero ''head2head-42'' state_h2h_zero)"
    by (simp add: state_h2h_zero_eq isCacheValid_def)
  show ?thesis using 1 2 3 4 by (simp add: state_h2h_zero_eq env_zero_def)
qed

theorem C9_dynamic_key_witness:
  "cache initial_state ''head2head-42'' = None
   \<and> fst (getCachedOrFetch env_ok ''head2head-42'' ''/matches/42/head2head?limit=10'' initial_state)
       = Inr (JObj [(''standings'', JArr [])])
   \<and> cache (snd (getCachedOrFetch env_ok ''head2head-42'' ''/matches/42/head2head?limit=10'' initial_state)) ''head2head-42''
       = Some \<lparr>data = JObj [(''standings'', JArr [])], timestamp = Some 1000, ttl = Some 300000\<rparr>
   \<and> fst (getCachedOrFetch env_ok ''head2head-42'' ''/matches/42/head2head?limit=5''
        (snd (getCachedOrFetch env_ok ''head2head-42'' ''/matches/42/head2head?limit=10'' initial_state)))
       = Inr (JObj [(''standings'', JArr [])])"
proof -
  let ?s1 = "snd (getCachedOrFetch env_ok ''head2head-42'' ''/matches/42/head2head?limit=10'' initial_state)"
  have 1: "cache initial_state ''head2head-42'' = None"
    by (simp add: initial_state_def initial_cache_def)
  have 2: "fst (fetchFootballData env_ok ''/matches/42/head2head?limit=10'' initial_state)
             = Inr (JObj [(''standings'', JArr [])])"
    by (simp add: fetchFootballData_def env_ok_def Let_def response_ok_def)
  have 3: "clock env_ok (clock_reads initial_state) = 1000"
    by (simp add: env_ok_def initial_state_def)
  have 4: "clock_reads ?s1 = 1"
    by (simp add: cache_eval env_ok_def)
  have 5: "clock env_ok (clock_reads ?s1) - clock env_ok (clock_reads initial_state) < 300000"
    unfolding 4 by (simp add: env_ok_def initial_state_def)
  from C9_dynamic_key_created_with_default_ttl[of initial_state "''head2head-42''" env_ok "''/matches/42/head2head?limit=10''"
        "JObj [(''standings'', JArr [])]"] 1 2
  have 6: "fst (getCachedOrFetch env_ok ''head2head-42'' ''/matches/42/head2head?limit=10'' initial_state) = Inr (JObj [(''standings'', JArr [])])"
    and 7: "cache ?s1 ''head2head-42''
         = Some \<lparr>data = JObj [(''standings'', JArr [])], timestamp = Some (clock env_ok (clock_reads initial_state)), ttl = Some 300000\<rparr>"
    and 8: "\<And>s2 ep2. cache s2 ''head2head-42'' = cache ?s1 ''head2head-42''
          \<and> truthy (JObj [(''standings'', JArr [])]) \<and> clock env_ok (clock_reads initial_state) \<noteq> 0
          \<and> clock env_ok (clock_reads s2) - clock env_ok (clock_reads initial_state) < 300000
          \<Longrightarrow> fst (getCachedOrFetch env_ok ''head2head-42'' ep2 s2) = Inr (JObj [(''standings'', JArr [])])"
    by blast+
  have 9: "fst (getCachedOrFetch env_ok ''head2head-42'' ''/matches/42/head2head?limit=5'' ?s1) = Inr (JObj [(''standings'', JArr [])])"
    by (rule 8) (use 3 5 in simp)
  show ?thesis using 1 6 7 9 3 by simp
qed

section \<open>Head-to-head\<close>





text \<open>
  C8 fails on the code: for two teams that never met the provider's payload has an empty
  \<open>matches\<close> array, which is truthy, so the handler takes the branch that builds the
  stats and answers with zero-filled stats instead of \<open>stats: null\<close>.
\<close>

theorem C8_empty_matches_zero_filled_stats:
  "fst (head2head_handler env_no_meetings ''42'' None initial_state) =
     \<lparr>reply_status = 200,
      reply_body = JObj
        [(''success'', JBool True),
         (''stats'', JObj
            [(''homeTeam'', JObj [(''name'', JUndefined), (''wins'', JNum 0), (''draws'', JNum 0), (''losses'', JNum 0)]),
             (''awayTeam'', JObj [(''name'', JUndefined), (''wins'', JNum 0), (''draws'', JNum 0), (''losses'', JNum 0)]),
             (''totalMatches'', JNum 0),
             (''recentMatches'', JArr [])]),
         (''allMatches'', JArr [])]\<rparr>"
proof -
  have g: "fst (getCachedOrFetch env_no_meetings ''head2head-42'' ''/matches/42/head2head?limit=10'' initial_state) = Inr no_meetings_payload"
    by (simp add: cache_eval env_no_meetings_def)
  have r: "head2head_reply no_meetings_payload = \<lparr>reply_status = 200,
      reply_body = JObj
        [(''success'', JBool True),
         (''stats'', JObj
            [(''homeTeam'', JObj [(''name'', JUndefined), (''wins'', JNum 0), (''draws'', JNum 0), (''losses'', JNum 0)]),
             (''awayTeam'', JObj [(''name'', JUndefined), (''wins'', JNum 0), (''draws'', JNum 0), (''losses'', JNum 0)]),
             (''totalMatches'', JNum 0),
             (''recentMatches'', JArr [])]),
         (''allMatches'', JArr [])]\<rparr>"
    by (simp add: head2head_reply_def head2head_stats_def recentMatches_def bind_err_def js_or_def no_meetings_payload_def)
  obtain x s' where p: "getCachedOrFetch env_no_meetings ''head2head-42'' ''/matches/42/head2head?limit=10'' initial_state = (x, s')"
    by (cases "getCachedOrFetch env_no_meetings ''head2head-42'' ''/matches/42/head2head?limit=10'' initial_state")
  with g have x: "x = Inr no_meetings_payload" by simp
  show ?thesis
    using p x r
    by (simp add: head2head_handler_def head2head_key_def head2head_endpoint_def falsy_query_def)
qed


lemma success_stored:
  assumes "fst (getCachedOrFetch env k ep s) = Inr d"
  shows "\<exists>e. cache (snd (getCachedOrFetch env k ep s)) k = Some e \<and> data e = d"
proof (cases "fst (isCacheValid env k s)")
  case True
  from cache_hit[OF True, of ep] assms show ?thesis by auto
next
  case False
  obtain r s2 where f: "fetchFootballData env ep (snd (isCacheValid env k s)) = (r, s2)"
    by (cases "fetchFootballData env ep (snd (isCacheValid env k s))")
  show ?thesis
  proof (cases r)
    case (Inl e)
    with miss_failure(1)[OF False, of ep e] f assms show ?thesis by simp
  next
    case (Inr d')
    with miss_success[OF False, of ep d'] f assms have "d' = d" by simp
    with miss_state[OF False, of ep] f Inr show ?thesis
      by (simp add: Date_now_def Let_def)
  qed
qed

lemma handler_of_fetch:
  "matchId \<noteq> [] \<Longrightarrow>
   fst (getCachedOrFetch env (head2head_key matchId) (head2head_endpoint matchId lim) s) = Inr d \<Longrightarrow>
   fst (head2head_handler env matchId lim s) = head2head_reply d
   \<and> snd (head2head_handler env matchId lim s)
       = snd (getCachedOrFetch env (head2head_key matchId) (head2head_endpoint matchId lim) s)"
  by (cases "getCachedOrFetch env (head2head_key matchId) (head2head_endpoint matchId lim) s")
     (simp add: head2head_handler_def)

lemma state_h2h_eq:
  "state_h2h =
     \<lparr>cache = initial_cache(''head2head-42'' \<mapsto>
                 \<lparr>data = example_head2head, timestamp = Some 1000, ttl = Some 300000\<rparr>),
      guardianArticles = Map.empty, clock_reads = 1,
      sent = [FootballRequest ''https://api.football-data.org/v4/matches/42/head2head?limit=10'' ''k'']\<rparr>"
  by (simp add: state_h2h_def head2head_handler_def head2head_key_def head2head_endpoint_def
      falsy_query_def cache_eval env_h2h_def)







text \<open>
  C10, as stated, fails: the provider answers the first head-to-head request (no limit,
  so 10) with the JSON body \<open>0\<close>; the slot \<open>head2head-42\<close> holds it with ttl 300000, the
  second request, with limit 3, comes one millisecond later, and it asks the provider
  again, with \<open>limit=3\<close>.
\<close>

theorem C10_falsy_payload_refetched_counterexample:
  "fst (head2head_handler env_zero ''42'' None initial_state) = head2head_reply (JNum 0)
   \<and> cache (snd (head2head_handler env_zero ''42'' None initial_state)) ''head2head-42''
       = Some \<lparr>data = JNum 0, timestamp = Some 1000, ttl = Some 300000\<rparr>
   \<and> clock env_zero (clock_reads (snd (head2head_handler env_zero ''42'' None initial_state))) - 1000
       < 300000
   \<and> sent (snd (head2head_handler env_zero ''42'' (Some (QStr ''3''))
                  (snd (head2head_handler env_zero ''42'' None initial_state))))
       = [FootballRequest ''https://api.football-data.org/v4/matches/42/head2head?limit=10'' ''k'',
          FootballRequest ''https://api.football-data.org/v4/matches/42/head2head?limit=3'' ''k'']"
proof -
  have s1: "snd (head2head_handler env_zero ''42'' None initial_state) = state_h2h_zero"
    by (simp add: state_h2h_zero_def head2head_handler_def head2head_key_def
        head2head_endpoint_def falsy_query_def cache_eval env_zero_def)
  have 1: "fst (head2head_handler env_zero ''42'' None initial_state) = head2head_reply (JNum 0)"
    by (simp add: head2head_handler_def head2head_key_def head2head_endpoint_def falsy_query_def
        cache_eval env_zero_def)
  have 2: "sent (snd (head2head_handler env_zero ''42'' (Some (QStr ''3'')) state_h2h_zero))
       = [FootballRequest ''https://api.football-data.org/v4/matches/42/head2head?limit=10'' ''k'',
          FootballRequest ''https://api.football-data.org/v4/matches/42/head2head?limit=3'' ''k'']"
    by (simp add: state_h2h_zero_eq head2head_handler_def head2head_key_def head2head_endpoint_def
        falsy_query_def template_def getCachedOrFetch_def isCacheValid_def fetchFootballData_def
        Date_now_def response_ok_def Let_def truthy_time_def within_ttl_def API_BASE_def
        football_request_def env_zero_def)
  show ?thesis unfolding s1 using 1 2 by (simp add: state_h2h_zero_eq env_zero_def)
qed

text \<open>
  C10, amended: the slot a head-to-head request reads and writes is named by the match
  identifier alone, \<open>head2head-\<close> followed by it. When a request with any limit has
  obtained the payload \<open>d\<close> and left it in the slot with the time \<open>t\<close> and the ttl \<open>l\<close>,
  a second request for the same match with any other limit that finds the slot
  unchanged at a time less than \<open>l\<close> after \<open>t\<close> answers what the first answered, issues
  no request and leaves the cache as it is, provided \<open>d\<close> is truthy and \<open>t\<close> is not 0.
  When the first request found no slot and fetched \<open>d\<close>, the slot's time is the time read
  after that fetch and its ttl is 300000 (5 minutes).
\<close>

theorem C10_head2head_key_ignores_limit:
  "(matchId \<noteq> []
    \<and> fst (getCachedOrFetch env (head2head_key matchId) (head2head_endpoint matchId limit1) s) = Inr d
    \<and> cache (snd (head2head_handler env matchId limit1 s)) (head2head_key matchId) = Some e
    \<and> cache s2 (head2head_key matchId) = Some e
    \<and> timestamp e = Some t \<and> ttl e = Some l
    \<and> truthy d \<and> t \<noteq> 0 \<and> clock env (clock_reads s2) - t < l
    \<longrightarrow> head2head_key matchId = ''head2head-'' @ matchId
        \<and> data e = d
        \<and> fst (head2head_handler env matchId limit1 s) = head2head_reply d
        \<and> fst (head2head_handler env matchId limit2 s2) = head2head_reply d
        \<and> sent (snd (head2head_handler env matchId limit2 s2)) = sent s2
        \<and> cache (snd (head2head_handler env matchId limit2 s2)) = cache s2)
   \<and> (matchId \<noteq> []
      \<and> cache s (head2head_key matchId) = None
      \<and> fst (fetchFootballData env (head2head_endpoint matchId limit1) s) = Inr d
      \<and> cache s2 (head2head_key matchId)
          = cache (snd (head2head_handler env matchId limit1 s)) (head2head_key matchId)
      \<and> truthy d \<and> clock env (clock_reads s) \<noteq> 0
      \<and> clock env (clock_reads s2) - clock env (clock_reads s) < 300000
      \<longrightarrow> fst (head2head_handler env matchId limit1 s) = head2head_reply d
          \<and> fst (head2head_handler env matchId limit2 s2) = head2head_reply d
          \<and> sent (snd (head2head_handler env matchId limit2 s2)) = sent s2
          \<and> cache (snd (head2head_handler env matchId limit2 s2)) = cache s2)"
proof (rule conjI; rule impI)
  let ?k = "head2head_key matchId"
  let ?ep1 = "head2head_endpoint matchId limit1"
  let ?ep2 = "head2head_endpoint matchId limit2"
  assume a: "matchId \<noteq> []
    \<and> fst (getCachedOrFetch env ?k ?ep1 s) = Inr d
    \<and> cache (snd (head2head_handler env matchId limit1 s)) ?k = Some e
    \<and> cache s2 ?k = Some e
    \<and> timestamp e = Some t \<and> ttl e = Some l
    \<and> truthy d \<and> t \<noteq> 0 \<and> clock env (clock_reads s2) - t < l"
  then have m: "matchId \<noteq> []" and g: "fst (getCachedOrFetch env ?k ?ep1 s) = Inr d"
    and e1: "cache (snd (head2head_handler env matchId limit1 s)) ?k = Some e"
    and e2: "cache s2 ?k = Some e"
    and t: "timestamp e = Some t" and l: "ttl e = Some l"
    and d: "truthy d" and t0: "t \<noteq> 0" and w: "clock env (clock_reads s2) - t < l"
    by simp_all
  from handler_of_fetch[OF m g]
  have h1: "fst (head2head_handler env matchId limit1 s) = head2head_reply d"
    and s1: "snd (head2head_handler env matchId limit1 s) = snd (getCachedOrFetch env ?k ?ep1 s)"
    by simp_all
  from success_stored[OF g] s1 e1 have de: "data e = d" by auto
  have v: "fst (isCacheValid env ?k s2)"
    using e2 de t l d t0 w by (simp add: isCacheValid_iff)
  from cache_hit[OF v, of ?ep2] e2 de
  have g2: "fst (getCachedOrFetch env ?k ?ep2 s2) = Inr d"
    and st: "sent (snd (getCachedOrFetch env ?k ?ep2 s2)) = sent s2"
    and ch: "cache (snd (getCachedOrFetch env ?k ?ep2 s2)) = cache s2" by auto
  from handler_of_fetch[OF m g2] st ch h1 de
  show "head2head_key matchId = ''head2head-'' @ matchId
        \<and> data e = d
        \<and> fst (head2head_handler env matchId limit1 s) = head2head_reply d
        \<and> fst (head2head_handler env matchId limit2 s2) = head2head_reply d
        \<and> sent (snd (head2head_handler env matchId limit2 s2)) = sent s2
        \<and> cache (snd (head2head_handler env matchId limit2 s2)) = cache s2"
    by (simp add: head2head_key_def)
next
  let ?k = "head2head_key matchId"
  let ?ep1 = "head2head_endpoint matchId limit1"
  let ?ep2 = "head2head_endpoint matchId limit2"
  assume a: "matchId \<noteq> []
      \<and> cache s ?k = None
      \<and> fst (fetchFootballData env ?ep1 s) = Inr d
      \<and> cache s2 ?k = cache (snd (head2head_handler env matchId limit1 s)) ?k
      \<and> truthy d \<and> clock env (clock_reads s) \<noteq> 0
      \<and> clock env (clock_reads s2) - clock env (clock_reads s) < 300000"
  then have m: "matchId \<noteq> []" and n: "cache s ?k = None"
    and f: "fst (fetchFootballData env ?ep1 s) = Inr d"
    and c: "cache s2 ?k = cache (snd (head2head_handler env matchId limit1 s)) ?k"
    and d: "truthy d" and t0: "clock env (clock_reads s) \<noteq> 0"
    and w: "clock env (clock_reads s2) - clock env (clock_reads s) < 300000"
    by simp_all
  note st = first_fetch_creates_slot[OF n f]
  from handler_of_fetch[OF m st(1)]
  have h1: "fst (head2head_handler env matchId limit1 s) = head2head_reply d"
    and s1: "snd (head2head_handler env matchId limit1 s) = snd (getCachedOrFetch env ?k ?ep1 s)"
    by simp_all
  from c s1 st(2)
  have e2: "cache s2 ?k
      = Some \<lparr>data = d, timestamp = Some (clock env (clock_reads s)), ttl = Some 300000\<rparr>"
    by simp
  have v: "fst (isCacheValid env ?k s2)"
    using e2 d t0 w by (simp add: isCacheValid_iff)
  from cache_hit[OF v, of ?ep2] e2
  have g2: "fst (getCachedOrFetch env ?k ?ep2 s2) = Inr d"
    and sn: "sent (snd (getCachedOrFetch env ?k ?ep2 s2)) = sent s2"
    and ch: "cache (snd (getCachedOrFetch env ?k ?ep2 s2)) = cache s2" by auto
  from handler_of_fetch[OF m g2] sn ch h1
  show "fst (head2head_handler env matchId limit1 s) = head2head_reply d
          \<and> fst (head2head_handler env matchId limit2 s2) = head2head_reply d
          \<and> sent (snd (head2head_handler env matchId limit2 s2)) = sent s2
          \<and> cache (snd (head2head_handler env matchId limit2 s2)) = cache s2"
    by simp
qed

theorem C10_head2head_key_witness:
  "head2head_key ''42'' = ''head2head-42''
   \<and> fst (head2head_handler env_h2h ''42'' None initial_state) = head2head_reply example_head2head
   \<and> fst (head2head_handler env_h2h ''42'' (Some (QStr ''3'')) state_h2h)
       = head2head_reply example_head2head
   \<and> sent (snd (head2head_handler env_h2h ''42'' (Some (QStr ''3'')) state_h2h))
       = [FootballRequest ''https://api.football-data.org/v4/matches/42/head2head?limit=10'' ''k'']
   \<and> cache (snd (head2head_handler env_h2h ''42'' (Some (QStr ''3'')) state_h2h)) = cache state_h2h"
proof -
  let ?e = "\<lparr>data = example_head2head, timestamp = Some 1000, ttl = Some 300000\<rparr>"
  have m: "''42'' \<noteq> []" by simp
  have n: "cache initial_state (head2head_key ''42'') = None"
    by (simp add: head2head_key_def initial_state_def initial_cache_def)
  have f: "fst (fetchFootballData env_h2h (head2head_endpoint ''42'' None) initial_state)
             = Inr example_head2head"
    by (simp add: fetchFootballData_def env_h2h_def Let_def response_ok_def)
  have g: "fst (getCachedOrFetch env_h2h (head2head_key ''42'') (head2head_endpoint ''42'' None)
                  initial_state) = Inr example_head2head"
    by (rule first_fetch_creates_slot(1)[OF n f])
  have e1: "cache (snd (head2head_handler env_h2h ''42'' None initial_state)) (head2head_key ''42'')
              = Some ?e"
    unfolding state_h2h_def[symmetric] by (simp add: state_h2h_eq head2head_key_def)
  have e2: "cache state_h2h (head2head_key ''42'') = Some ?e"
    by (simp add: state_h2h_eq head2head_key_def)
  have c: "cache state_h2h (head2head_key ''42'')
       = cache (snd (head2head_handler env_h2h ''42'' None initial_state)) (head2head_key ''42'')"
    by (simp add: state_h2h_def)
  have t: "truthy example_head2head" by (simp add: example_head2head_def)
  have t0: "clock env_h2h (clock_reads initial_state) \<noteq> 0"
    by (simp add: env_h2h_def initial_state_def)
  have w: "clock env_h2h (clock_reads state_h2h) - clock env_h2h (clock_reads initial_state) < 300000"
    by (simp add: state_h2h_eq env_h2h_def initial_state_def)
  have w1: "clock env_h2h (clock_reads state_h2h) - 1000 < 300000"
    by (simp add: state_h2h_eq env_h2h_def)
  have s: "sent state_h2h
      = [FootballRequest ''https://api.football-data.org/v4/matches/42/head2head?limit=10'' ''k'']"
    by (simp add: state_h2h_eq)
  note inst = C10_head2head_key_ignores_limit[of "''42''" env_h2h None initial_state
      example_head2head ?e state_h2h 1000 300000 "Some (QStr ''3'')"]
  from inst[THEN conjunct1] m g e1 e2 t w1
  have a: "head2head_key ''42'' = ''head2head-'' @ ''42''
        \<and> fst (head2head_handler env_h2h ''42'' None initial_state) = head2head_reply example_head2head
        \<and> fst (head2head_handler env_h2h ''42'' (Some (QStr ''3'')) state_h2h)
            = head2head_reply example_head2head"
    by simp
  from inst[THEN conjunct2] m n f c t t0 w
  have b: "sent (snd (head2head_handler env_h2h ''42'' (Some (QStr ''3'')) state_h2h)) = sent state_h2h
          \<and> cache (snd (head2head_handler env_h2h ''42'' (Some (QStr ''3'')) state_h2h))
              = cache state_h2h"
    by blast
  from a b s show ?thesis by simp
qed

section \<open>Last season\<close>

text \<open>
  C4: for every date, both last-season handlers fetch with the season year
  \<open>currentYear - 1\<close> when the zero-based month is 7 (August) or later and
  \<open>currentYear - 2\<close> otherwise; for July 31 that is \<open>currentYear - 2\<close> and for August 1
  \<open>currentYear - 1\<close>.
\<close>

theorem C4_last_season_year:
  "standings_last_handler env today s =
     pass_through ''Failed to fetch last season standings''
       (getCachedOrFetch env ''standingsLast''
          (''/competitions/PL/standings?season=''
             @ show_int (if 7 \<le> month today then fullYear today - 1 else fullYear today - 2)) s)
   \<and> matches_last_handler env today s =
     pass_through ''Failed to fetch last season matches''
       (getCachedOrFetch env ''matchesLast''
          (''/competitions/PL/matches?season=''
             @ show_int (if 7 \<le> month today then fullYear today - 1 else fullYear today - 2)) s)
   \<and> standings_last_handler env \<lparr>fullYear = y, month = 6, day_of_month = 31\<rparr> s =
     pass_through ''Failed to fetch last season standings''
       (getCachedOrFetch env ''standingsLast''
          (''/competitions/PL/standings?season='' @ show_int (y - 2)) s)
   \<and> matches_last_handler env \<lparr>fullYear = y, month = 6, day_of_month = 31\<rparr> s =
     pass_through ''Failed to fetch last season matches''
       (getCachedOrFetch env ''matchesLast''
          (''/competitions/PL/matches?season='' @ show_int (y - 2)) s)
   \<and> standings_last_handler env \<lparr>fullYear = y, month = 7, day_of_month = 1\<rparr> s =
     pass_through ''Failed to fetch last season standings''
       (getCachedOrFetch env ''standingsLast''
          (''/competitions/PL/standings?season='' @ show_int (y - 1)) s)
   \<and> matches_last_handler env \<lparr>fullYear = y, month = 7, day_of_month = 1\<rparr> s =
     pass_through ''Failed to fetch last season matches''
       (getCachedOrFetch env ''matchesLast''
          (''/competitions/PL/matches?season='' @ show_int (y - 1)) s)"
  by (simp add: standings_last_handler_def matches_last_handler_def Let_def not_less)

lemma show_2023: "show_int 2023 = ''2023''"
  by (simp add: show_int_def show_nat.simps digit_char_def)

lemma show_2024: "show_int 2024 = ''2024''"
  by (simp add: show_int_def show_nat.simps digit_char_def)

theorem C4_last_season_year_witness:
  "sent (snd (standings_last_handler env_ok \<lparr>fullYear = 2025, month = 6, day_of_month = 31\<rparr> initial_state))
     = [FootballRequest ''https://api.football-data.org/v4/competitions/PL/standings?season=2023'' ''k'']
   \<and> sent (snd (matches_last_handler env_ok \<lparr>fullYear = 2025, month = 7, day_of_month = 1\<rparr> initial_state))
     = [FootballRequest ''https://api.football-data.org/v4/competitions/PL/matches?season=2024'' ''k'']"
proof -
  have a: "sent (snd (pass_through ''Failed to fetch last season standings''
       (getCachedOrFetch env_ok ''standingsLast''
          (''/competitions/PL/standings?season='' @ show_int (2025 - 2)) initial_state)))
     = [FootballRequest ''https://api.football-data.org/v4/competitions/PL/standings?season=2023'' ''k'']"
    by (simp add: show_2023 pass_through_def cache_eval env_ok_def)
  have b: "sent (snd (pass_through ''Failed to fetch last season matches''
       (getCachedOrFetch env_ok ''matchesLast''
          (''/competitions/PL/matches?season='' @ show_int (2025 - 1)) initial_state)))
     = [FootballRequest ''https://api.football-data.org/v4/competitions/PL/matches?season=2024'' ''k'']"
    by (simp add: show_2024 pass_through_def cache_eval env_ok_def)
  from C4_last_season_year[of env_ok "\<lparr>fullYear = 2025, month = 6, day_of_month = 31\<rparr>" initial_state 2025] a b
  show ?thesis by simp
qed


section \<open>Clearing the cache\<close>

lemma prereg_dom: "dom initial_cache = set preregistered_keys"
  by (auto simp add: initial_cache_def preregistered_keys_def)

text \<open>
  C5, as stated, fails: a head-to-head key is created on demand, and after the clear its
  slot is still there, reset and with its ttl, not removed.
\<close>

theorem C5_dynamic_slot_kept_counterexample:
  "''head2head-42'' \<notin> set preregistered_keys
   \<and> cache initial_state ''head2head-42'' = None
   \<and> cache state_h2h ''head2head-42''
       = Some \<lparr>data = example_head2head, timestamp = Some 1000, ttl = Some 300000\<rparr>
   \<and> cache (snd (cache_clear_handler state_h2h)) ''head2head-42''
       = Some \<lparr>data = JNull, timestamp = None, ttl = Some 300000\<rparr>"
  by (simp add: preregistered_keys_def state_h2h_eq cache_clear_handler_def initial_state_def initial_cache_def)

text \<open>
  C5, amended: after the cache-clear handler every cache key is invalid and every
  article search misses; every slot that existed, pre-registered or created on demand
  for a head-to-head key, keeps its ttl and has \<open>data\<close> and \<open>timestamp\<close> reset to
  \<open>null\<close>; no slot is created; and the dictionary of article searches is replaced by
  an empty one, so that its entries, and only they, are removed wholesale.
\<close>

theorem C5_clear_resets_slots_and_empties_articles:
  "(\<forall>k. \<not> fst (isCacheValid env k (snd (cache_clear_handler s))))
   \<and> (\<forall>q now. \<not> article_cache_hit now (guardianArticles (snd (cache_clear_handler s)) q))
   \<and> (\<forall>k e. cache s k = Some e \<and> k \<noteq> ''guardianArticles''
         \<longrightarrow> cache (snd (cache_clear_handler s)) k
               = Some \<lparr>data = JNull, timestamp = None, ttl = ttl e\<rparr>)
   \<and> (\<forall>k. cache s k = None \<longrightarrow> cache (snd (cache_clear_handler s)) k = None)
   \<and> (cache s ''guardianArticles'' \<noteq> None
         \<longrightarrow> cache (snd (cache_clear_handler s)) ''guardianArticles'' = Some empty_object)
   \<and> guardianArticles (snd (cache_clear_handler s)) = Map.empty
   \<and> sent (snd (cache_clear_handler s)) = sent s"
  by (auto simp add: cache_clear_handler_def isCacheValid_iff article_cache_hit_def empty_object_def
      split: option.splits)


theorem C5_clear_witness:
  "fst (isCacheValid env_h2h ''head2head-42'' state_h2h)
   \<and> \<not> fst (isCacheValid env_h2h ''head2head-42'' (snd (cache_clear_handler state_h2h)))
   \<and> cache (snd (cache_clear_handler state_h2h)) ''standings''
       = Some \<lparr>data = JNull, timestamp = None, ttl = Some 300000\<rparr>
   \<and> cache (snd (cache_clear_handler state_h2h)) ''competition''
       = Some \<lparr>data = JNull, timestamp = None, ttl = Some 86400000\<rparr>
   \<and> cache (snd (cache_clear_handler state_h2h)) ''head2head-42''
       = Some \<lparr>data = JNull, timestamp = None, ttl = Some 300000\<rparr>
   \<and> cache (snd (cache_clear_handler state_h2h)) ''head2head-43'' = None
   \<and> guardianArticles (snd (cache_clear_handler state_h2h)) = Map.empty"
proof -
  have t: "truthy example_head2head" by (simp add: example_head2head_def)
  have v: "fst (isCacheValid env_h2h ''head2head-42'' state_h2h)"
    using t by (simp add: state_h2h_eq isCacheValid_def Date_now_def truthy_time_def within_ttl_def env_h2h_def)
  have a: "cache state_h2h ''standings'' = Some \<lparr>data = JNull, timestamp = None, ttl = Some 300000\<rparr>"
    "cache state_h2h ''competition'' = Some \<lparr>data = JNull, timestamp = None, ttl = Some 86400000\<rparr>"
    "cache state_h2h ''head2head-42'' = Some \<lparr>data = example_head2head, timestamp = Some 1000, ttl = Some 300000\<rparr>"
    "cache state_h2h ''head2head-43'' = None"
    by (simp_all add: state_h2h_eq initial_cache_def slot_def)
  from C5_clear_resets_slots_and_empties_articles[of env_h2h state_h2h] v a show ?thesis by simp
qed

section \<open>The news-search client never throws\<close>

lemma fetchGuardianData_total: "\<exists>r. fst (fetchGuardianData env endpoint params s) = Inr r"
  by (simp add: fetchGuardianData_def split: prod.splits sum.splits)

lemma fetchGuardianData_no_key:
  "falsy_param (GUARDIAN_API_KEY env) \<Longrightarrow> fetchGuardianData env endpoint params s = (Inr None, s)"
  by (simp add: fetchGuardianData_def fetchGuardianData_try_def falsy_param_def split: option.splits)

lemma fetchGuardianData_failure:
  "GUARDIAN_API_KEY env = Some key \<Longrightarrow> key \<noteq> [] \<Longrightarrow>
   upstream_fails (guardian_api env (length (sent s)) (guardian_request key endpoint params)) \<Longrightarrow>
   fst (fetchGuardianData env endpoint params s) = Inr None"
  by (auto simp add: fetchGuardianData_def fetchGuardianData_try_def upstream_fails_def Let_def
      split: net_result.splits option.splits)

lemma fetchGuardianData_success:
  "GUARDIAN_API_KEY env = Some key \<Longrightarrow> key \<noteq> [] \<Longrightarrow>
   guardian_api env (length (sent s)) (guardian_request key endpoint params) = NetReply st reason (Some d) \<Longrightarrow>
   response_ok st \<Longrightarrow>
   fetchGuardianData env endpoint params s
     = (Inr (Some d), s\<lparr>sent := sent s @ [guardian_request key endpoint params]\<rparr>)"
  by (simp add: fetchGuardianData_def fetchGuardianData_try_def Let_def)

lemma searchGuardianArticles_total:
  "\<exists>r. fst (searchGuardianArticles env query options s) = Inr r"
proof -
  obtain now s1 where d: "Date_now env s = (now, s1)" by (cases "Date_now env s")
  show ?thesis
  proof (cases "article_cache_hit now (guardianArticles s1 (query, options))")
    case True
    then obtain e where "guardianArticles s1 (query, options) = Some e"
      by (auto simp add: article_cache_hit_def split: option.splits)
    with True d show ?thesis by (simp add: searchGuardianArticles_def)
  next
    case False
    let ?params = "spread [(''q'', JStr query), (''section'', JStr ''football''),
                           (''page-size'', js_or (opt_member (JObj options) ''pageSize'') (JNum 5))] options"
    obtain r s2 where f: "fetchGuardianData env ''/search'' ?params s1 = (r, s2)"
      by (cases "fetchGuardianData env ''/search'' ?params s1")
    from fetchGuardianData_total[of env "''/search''" ?params s1] f obtain x where x: "r = Inr x" by auto
    show ?thesis using False d f x
      by (simp add: searchGuardianArticles_def Let_def split: option.splits guardian_data.splits)
  qed
qed

lemma searchGuardianArticles_no_key:
  assumes "falsy_param (GUARDIAN_API_KEY env)"
    and "\<not> article_cache_hit (clock env (clock_reads s)) (guardianArticles s (query, options))"
  shows "fst (searchGuardianArticles env query options s) = Inr None"
    and "sent (snd (searchGuardianArticles env query options s)) = sent s"
  using assms
  by (simp_all add: searchGuardianArticles_def Date_now_def Let_def fetchGuardianData_no_key)

text \<open>
  C6: \<open>fetchGuardianData\<close> never throws; when the credential is absent or empty it
  returns \<open>null\<close> and the state is untouched, so no request is issued; on a transport
  failure, a non-success status or a body that does not parse it returns \<open>null\<close>; on a
  success it returns the body. \<open>searchGuardianArticles\<close> never throws either, and without
  the credential a search that misses its cache returns \<open>null\<close> and issues no request.
\<close>

theorem C6_news_client_never_throws:
  "(\<exists>r. fst (fetchGuardianData env endpoint params s) = Inr r)
   \<and> (falsy_param (GUARDIAN_API_KEY env)
        \<longrightarrow> fetchGuardianData env endpoint params s = (Inr None, s))
   \<and> (\<forall>key. GUARDIAN_API_KEY env = Some key \<and> key \<noteq> []
        \<and> upstream_fails (guardian_api env (length (sent s)) (guardian_request key endpoint params))
        \<longrightarrow> fst (fetchGuardianData env endpoint params s) = Inr None)
   \<and> (\<forall>key st reason d. GUARDIAN_API_KEY env = Some key \<and> key \<noteq> []
        \<and> guardian_api env (length (sent s)) (guardian_request key endpoint params)
            = NetReply st reason (Some d) \<and> response_ok st
        \<longrightarrow> fst (fetchGuardianData env endpoint params s) = Inr (Some d))
   \<and> (\<exists>r. fst (searchGuardianArticles env query options s) = Inr r)
   \<and> (falsy_param (GUARDIAN_API_KEY env)
        \<and> \<not> article_cache_hit (clock env (clock_reads s)) (guardianArticles s (query, options))
        \<longrightarrow> fst (searchGuardianArticles env query options s) = Inr None
            \<and> sent (snd (searchGuardianArticles env query options s)) = sent s)"
  using fetchGuardianData_total[of env endpoint params s]
    fetchGuardianData_no_key[of env endpoint params s]
    fetchGuardianData_failure[of env _ s endpoint params]
    fetchGuardianData_success[of env _ s endpoint params]
    searchGuardianArticles_total[of env query options s]
    searchGuardianArticles_no_key[of env s query options]
  by (intro conjI allI impI) auto

theorem C6_news_client_witness:
  "fetchGuardianData env_ok ''/search'' [(''q'', JStr ''Arsenal'')] initial_state
     = (Inr None, initial_state)
   \<and> fst (fetchGuardianData env_guardian_down ''/search'' [(''q'', JStr ''Arsenal'')] initial_state)
       = Inr None
   \<and> fst (fetchGuardianData env_unquoted ''/search'' [(''q'', JStr ''Arsenal'')] initial_state)
       = Inr (Some (GuardianData (Some \<lparr>resp_results = Some [], resp_total = JNum 0\<rparr>)))
   \<and> fst (searchGuardianArticles env_ok ''Arsenal'' [] initial_state) = Inr None
   \<and> sent (snd (searchGuardianArticles env_ok ''Arsenal'' [] initial_state)) = []"
proof -
  have k: "falsy_param (GUARDIAN_API_KEY env_ok)"
    by (simp add: falsy_param_def env_ok_def)
  have g: "GUARDIAN_API_KEY env_guardian_down = Some ''g'' \<and> ''g'' \<noteq> []
        \<and> upstream_fails (guardian_api env_guardian_down (length (sent initial_state))
             (guardian_request ''g'' ''/search'' [(''q'', JStr ''Arsenal'')]))"
    by (simp add: env_guardian_down_def upstream_fails_def response_ok_def)
  have u: "GUARDIAN_API_KEY env_unquoted = Some ''g'' \<and> ''g'' \<noteq> []
        \<and> guardian_api env_unquoted (length (sent initial_state))
             (guardian_request ''g'' ''/search'' [(''q'', JStr ''Arsenal'')])
            = NetReply 200 ''OK''
                (Some (GuardianData (Some \<lparr>resp_results = Some [], resp_total = JNum 0\<rparr>)))
        \<and> response_ok 200"
    by (simp add: env_unquoted_def response_ok_def initial_state_def)
  have m: "\<not> article_cache_hit (clock env_ok (clock_reads initial_state))
             (guardianArticles initial_state (''Arsenal'', []))"
    by (simp add: article_cache_hit_def initial_state_def)
  have s: "sent initial_state = []" by (simp add: initial_state_def)
  from C6_news_client_never_throws
         [of env_ok "''/search''" "[(''q'', JStr ''Arsenal'')]" initial_state "''Arsenal''" "[]"] k m s
  have 1: "fetchGuardianData env_ok ''/search'' [(''q'', JStr ''Arsenal'')] initial_state
             = (Inr None, initial_state)"
    and 2: "fst (searchGuardianArticles env_ok ''Arsenal'' [] initial_state) = Inr None"
    and 3: "sent (snd (searchGuardianArticles env_ok ''Arsenal'' [] initial_state)) = []"
    by simp_all
  from C6_news_client_never_throws
         [of env_guardian_down "''/search''" "[(''q'', JStr ''Arsenal'')]" initial_state
             "''Arsenal''" "[]"] g
  have 4: "fst (fetchGuardianData env_guardian_down ''/search'' [(''q'', JStr ''Arsenal'')]
                  initial_state) = Inr None"
    by blast
  from C6_news_client_never_throws
         [of env_unquoted "''/search''" "[(''q'', JStr ''Arsenal'')]" initial_state
             "''Arsenal''" "[]"] u
  have 5: "fst (fetchGuardianData env_unquoted ''/search'' [(''q'', JStr ''Arsenal'')] initial_state)
       = Inr (Some (GuardianData (Some \<lparr>resp_results = Some [], resp_total = JNum 0\<rparr>)))"
    by blast
  show ?thesis using 1 2 3 4 5 by simp
qed

section \<open>The match-article search\<close>

lemma table_entries:
  "list_all (\<lambda>(k, vs). vs \<noteq> [] \<and> list_all (\<lambda>v. v \<noteq> []) vs \<and> (length vs \<le> 1 \<longrightarrow> vs = [k]))
     TEAM_NAME_VARIATIONS"
  by (simp add: TEAM_NAME_VARIATIONS_def)

lemma table_entry:
  assumes "map_of TEAM_NAME_VARIATIONS t = Some vs"
  shows "vs \<noteq> []" and "\<forall>v\<in>set vs. v \<noteq> []" and "length vs \<le> 1 \<longrightarrow> vs = [t]"
proof -
  from assms have "(t, vs) \<in> set TEAM_NAME_VARIATIONS" by (rule map_of_SomeD)
  with table_entries have "vs \<noteq> [] \<and> list_all (\<lambda>v. v \<noteq> []) vs \<and> (length vs \<le> 1 \<longrightarrow> vs = [t])"
    by (auto simp add: list_all_iff)
  then show "vs \<noteq> []" and "\<forall>v\<in>set vs. v \<noteq> []" and "length vs \<le> 1 \<longrightarrow> vs = [t]"
    by (simp_all add: list_all_iff)
qed

text \<open>The two shapes of what \<open>getTeamVariations\<close> returns for a name that is not inherited.\<close>

lemma variations_cases:
  assumes "\<not> inherited_name t"
  obtains (mapped) vs where "getTeamVariations (QStr t) = Variants vs" "spec_variantsFor t = vs"
      "vs \<noteq> []" "\<forall>v\<in>set vs. v \<noteq> []" "length vs \<le> 1 \<longrightarrow> vs = [t]"
  | (unmapped) "getTeamVariations (QStr t) = Unmapped (QStr t)" "spec_variantsFor t = [t]"
proof (cases "map_of TEAM_NAME_VARIATIONS t")
  case (Some vs)
  then have "getTeamVariations (QStr t) = Variants vs" "spec_variantsFor t = vs"
    by (simp_all add: getTeamVariations_def spec_variantsFor_def)
  with table_entry[OF Some] mapped show ?thesis by blast
next
  case None
  with assms have "map_of OBJECT_PROTOTYPE t = None" by (simp add: inherited_name_def)
  with None have "getTeamVariations (QStr t) = Unmapped (QStr t)" "spec_variantsFor t = [t]"
    by (simp_all add: getTeamVariations_def spec_variantsFor_def)
  with unmapped show ?thesis by blast
qed

lemma length_eq:
  "\<not> inherited_name t \<Longrightarrow> variations_length (getTeamVariations (QStr t)) = Some (length (spec_variantsFor t))"
  by (cases t rule: variations_cases) auto

lemma loop_bound_eq:
  "\<not> inherited_name h \<Longrightarrow> \<not> inherited_name a \<Longrightarrow>
   loop_bound (getTeamVariations (QStr h)) (getTeamVariations (QStr a))
     = max (length (spec_variantsFor h)) (length (spec_variantsFor a))"
  by (simp add: loop_bound_def length_eq)

lemma first_variation:
  "\<not> inherited_name t \<Longrightarrow> t \<noteq> [] \<Longrightarrow> variation_at (getTeamVariations (QStr t)) 0 = Some (QStr (spec_preferred t))"
  by (cases t rule: variations_cases) (auto simp add: spec_preferred_def neq_Nil_conv)

lemma alt_variation:
  "\<not> inherited_name t \<Longrightarrow> t \<noteq> [] \<Longrightarrow> 1 \<le> i \<Longrightarrow>
   template (or_val (variation_at (getTeamVariations (QStr t)) i) (variation_at (getTeamVariations (QStr t)) 0))
     = spec_ith_variant t i"
  by (cases t rule: variations_cases)
     (auto simp add: or_val_def spec_ith_variant_def spec_preferred_def template_def neq_Nil_conv hd_conv_nth)

lemma short_list:
  "\<not> inherited_name t \<Longrightarrow> \<not> longer_than_one (getTeamVariations (QStr t)) \<Longrightarrow> spec_preferred t = t"
  by (cases t rule: variations_cases)
     (auto simp add: longer_than_one_def spec_preferred_def not_less)

lemma quoted_eq: "quoted_and a b = spec_exact_phrases a b"
  by (simp add: quoted_and_def dq_def spec_exact_phrases_def)

lemma options_eq: "searchOptions type = spec_options type"
  by (simp add: searchOptions_def spec_options_def)

lemma has_articles_eq: "has_articles r = (spec_articles r \<noteq> [])"
  by (simp add: has_articles_def spec_articles_def split: option.splits)

lemma answer_found:
  "has_articles r \<Longrightarrow>
   answer_of (found_reply r name)
     = Some \<lparr>answer_articles = spec_articles r, answer_total = spec_total r, answer_strategy = name\<rparr>"
  by (auto simp add: has_articles_def answer_of_def found_reply_def spec_articles_def spec_total_def
      split: option.splits)

lemma answer_none:
  "answer_of none_reply = Some \<lparr>answer_articles = [], answer_total = JNum 0, answer_strategy = ''none''\<rparr>"
  by (simp add: answer_of_def none_reply_def)

lemma search_never_throws:
  "searchGuardianArticles env q opts s \<noteq> (Inl e, s')"
  using searchGuardianArticles_total[of env q opts s] by auto


lemma search_step:
  "spec_search env type q s = (r, s') \<Longrightarrow> searchGuardianArticles env q (searchOptions type) s = (Inr r, s')"
  using search_never_throws[of env q "spec_options type" s]
  by (auto simp add: spec_search_def options_eq split: prod.splits sum.splits)

lemma variation_loop_plan:
  "apfst answer_of (variation_loop env (searchOptions type) hv av i s) =
     apfst Some (spec_first_hit (spec_search env type)
       (map (\<lambda>j. (''variation-'' @ show_nat j,
                   quoted_and (template (or_val (variation_at hv j) (variation_at hv 0)))
                              (template (or_val (variation_at av j) (variation_at av 0)))))
          [i ..< loop_bound hv av]) s)"
proof (induction "loop_bound hv av - i" arbitrary: i s)
  case 0
  then have le: "loop_bound hv av \<le> i" by arith
  then have c: "(i < loop_bound hv av) = False" by arith
  have e: "[i ..< loop_bound hv av] = []"
    by (rule upt_conv_Nil) (rule le)
  show ?case
    by (subst variation_loop.simps)
       (simp only: c e if_False list.map spec_first_hit.simps apfst_conv answer_none)
next
  case (Suc n)
  then have lt: "i < loop_bound hv av" by simp
  from Suc have n: "n = loop_bound hv av - Suc i" by simp
  note IH = Suc.hyps(1)[OF n]
  have up: "[i ..< loop_bound hv av] = i # [Suc i ..< loop_bound hv av]"
    using lt by (simp add: upt_conv_Cons)
  let ?q = "quoted_and (template (or_val (variation_at hv i) (variation_at hv 0)))
                       (template (or_val (variation_at av i) (variation_at av 0)))"
  obtain r s' where f: "spec_search env type ?q s = (r, s')"
    by (cases "spec_search env type ?q s")
  note g = search_step[OF f]
  show ?case
    unfolding up
    by (subst variation_loop.simps)
       (simp add: lt IH Let_def f g has_articles_eq answer_found)
qed


lemma variation_plan_eq:
  assumes "\<not> inherited_name h" "h \<noteq> []" "\<not> inherited_name a" "a \<noteq> []"
  shows "map (\<lambda>j. (''variation-'' @ show_nat j,
              quoted_and
                (template (or_val (variation_at (getTeamVariations (QStr h)) j)
                             (variation_at (getTeamVariations (QStr h)) 0)))
                (template (or_val (variation_at (getTeamVariations (QStr a)) j)
                             (variation_at (getTeamVariations (QStr a)) 0)))))
     [1 ..< m]
   = map (\<lambda>i. (''variation-'' @ show_nat i,
                spec_exact_phrases (spec_ith_variant h i) (spec_ith_variant a i))) [1 ..< m]"
  by (rule map_cong) (simp_all add: alt_variation assms quoted_eq)

lemma variation_loop_from_one:
  assumes "\<not> inherited_name h" "h \<noteq> []" "\<not> inherited_name a" "a \<noteq> []"
  shows "apfst answer_of (variation_loop env (searchOptions type) (getTeamVariations (QStr h))
                 (getTeamVariations (QStr a)) (Suc 0) s) =
     apfst Some (spec_first_hit (spec_search env type)
       (map (\<lambda>i. (''variation-'' @ show_nat i,
                   spec_exact_phrases (spec_ith_variant h i) (spec_ith_variant a i)))
          [1 ..< max (length (spec_variantsFor h)) (length (spec_variantsFor a))]) s)"
proof -
  note p = variation_loop_plan[of env type "getTeamVariations (QStr h)" "getTeamVariations (QStr a)"
      1 s]
  note b = loop_bound_eq[OF assms(1) assms(3)]
  note e = variation_plan_eq[OF assms, unfolded One_nat_def]
  note q = p[unfolded b One_nat_def]
  show ?thesis unfolding One_nat_def using q unfolding e .
qed

lemma unquoted_step_plan:
  assumes "\<not> inherited_name h" "h \<noteq> []" "\<not> inherited_name a" "a \<noteq> []"
  shows "apfst answer_of (unquoted_step env (searchOptions type) (getTeamVariations (QStr h))
                 (getTeamVariations (QStr a)) s) =
     apfst Some (spec_first_hit (spec_search env type)
       ((''unquoted'', spec_preferred h @ '' '' @ spec_preferred a)
        # map (\<lambda>i. (''variation-'' @ show_nat i,
                      spec_exact_phrases (spec_ith_variant h i) (spec_ith_variant a i)))
            [1 ..< max (length (spec_variantsFor h)) (length (spec_variantsFor a))]) s)"
proof -
  let ?q = "spec_preferred h @ '' '' @ spec_preferred a"
  obtain r s' where f: "spec_search env type ?q s = (r, s')"
    by (cases "spec_search env type ?q s")
  note g = search_step[OF f]
  show ?thesis
    using assms f g
    by (simp add: unquoted_step_def first_variation template_def has_articles_eq answer_found
        variation_loop_from_one)
qed

lemma full_names_step_plan:
  assumes "\<not> inherited_name h" "h \<noteq> []" "\<not> inherited_name a" "a \<noteq> []"
  shows "apfst answer_of (full_names_step env (searchOptions type) (QStr h) (QStr a)
                 (getTeamVariations (QStr h)) (getTeamVariations (QStr a)) s) =
     apfst Some (spec_first_hit (spec_search env type)
       ((if spec_preferred h \<noteq> h \<or> spec_preferred a \<noteq> a
         then [(''full-names'', spec_exact_phrases (spec_preferred h) (spec_preferred a))]
         else [])
        @ [(''unquoted'', spec_preferred h @ '' '' @ spec_preferred a)]
        @ map (\<lambda>i. (''variation-'' @ show_nat i,
                      spec_exact_phrases (spec_ith_variant h i) (spec_ith_variant a i)))
            [1 ..< max (length (spec_variantsFor h)) (length (spec_variantsFor a))]) s)"
proof (cases "spec_preferred h \<noteq> h \<or> spec_preferred a \<noteq> a")
  case True
  with assms have c: "longer_than_one (getTeamVariations (QStr h))
                      \<or> longer_than_one (getTeamVariations (QStr a))"
    using short_list[of h] short_list[of a] by blast
  let ?q = "spec_exact_phrases (spec_preferred h) (spec_preferred a)"
  obtain r s' where f: "spec_search env type ?q s = (r, s')"
    by (cases "spec_search env type ?q s")
  note g = search_step[OF f]
  show ?thesis
    using True c assms f g
    by (simp add: full_names_step_def Let_def first_variation template_def quoted_eq
        has_articles_eq answer_found unquoted_step_plan)
next
  case False
  with assms have "full_names_step env (searchOptions type) (QStr h) (QStr a)
                 (getTeamVariations (QStr h)) (getTeamVariations (QStr a)) s
    = unquoted_step env (searchOptions type) (getTeamVariations (QStr h)) (getTeamVariations (QStr a)) s"
    by (auto simp add: full_names_step_def Let_def first_variation)
  with False assms show ?thesis by (simp add: unquoted_step_plan)
qed

lemma guardian_match_search_plan:
  assumes "\<not> inherited_name h" "h \<noteq> []" "\<not> inherited_name a" "a \<noteq> []"
  shows "apfst answer_of (guardian_match_search env (QStr h) (QStr a) type s) =
     apfst Some (spec_first_hit (spec_search env type) (spec_strategy_plan h a) s)"
proof -
  let ?q = "spec_exact_phrases h a"
  obtain r s' where f: "spec_search env type ?q s = (r, s')"
    by (cases "spec_search env type ?q s")
  note g = search_step[OF f]
  show ?thesis
    using assms f g
    by (simp add: guardian_match_search_def Let_def spec_strategy_plan_def quoted_eq
        has_articles_eq answer_found full_names_step_plan del: upt_Suc)
qed

text \<open>
  For two names given as non-empty text, neither of them inherited, the handler answers
  what the first-hit run of the specification's plan answers (the articles, the total
  and the name of the first strategy with an article, or the empty list, total 0 and
  \<open>none\<close>), always with status 200, and leaves the state that run leaves: the same
  searches were made, in the same order, and none after the hit.
\<close>

proposition match_search_follows_plan:
  "homeTeam \<noteq> [] \<and> awayTeam \<noteq> [] \<and> \<not> inherited_name homeTeam \<and> \<not> inherited_name awayTeam
   \<longrightarrow> answer_of (fst (guardian_match_handler env (Some (QStr homeTeam)) (Some (QStr awayTeam)) type s))
         = Some (fst (spec_first_hit (spec_search env type) (spec_strategy_plan homeTeam awayTeam) s))
       \<and> snd (guardian_match_handler env (Some (QStr homeTeam)) (Some (QStr awayTeam)) type s)
         = snd (spec_first_hit (spec_search env type) (spec_strategy_plan homeTeam awayTeam) s)"
proof (intro impI)
  assume a: "homeTeam \<noteq> [] \<and> awayTeam \<noteq> [] \<and> \<not> inherited_name homeTeam \<and> \<not> inherited_name awayTeam"
  then have h: "guardian_match_handler env (Some (QStr homeTeam)) (Some (QStr awayTeam)) type s
      = guardian_match_search env (QStr homeTeam) (QStr awayTeam) type s"
    by (simp add: guardian_match_handler_def falsy_query_def)
  from a guardian_match_search_plan[of homeTeam awayTeam env type s]
  have p: "apfst answer_of (guardian_match_search env (QStr homeTeam) (QStr awayTeam) type s) =
     apfst Some (spec_first_hit (spec_search env type) (spec_strategy_plan homeTeam awayTeam) s)"
    by simp
  from p have 1: "fst (apfst answer_of (guardian_match_search env (QStr homeTeam) (QStr awayTeam) type s))
     = fst (apfst Some (spec_first_hit (spec_search env type) (spec_strategy_plan homeTeam awayTeam) s))"
    and 2: "snd (apfst answer_of (guardian_match_search env (QStr homeTeam) (QStr awayTeam) type s))
     = snd (apfst Some (spec_first_hit (spec_search env type) (spec_strategy_plan homeTeam awayTeam) s))"
    by simp_all
  show "answer_of (fst (guardian_match_handler env (Some (QStr homeTeam)) (Some (QStr awayTeam)) type s))
         = Some (fst (spec_first_hit (spec_search env type) (spec_strategy_plan homeTeam awayTeam) s))
       \<and> snd (guardian_match_handler env (Some (QStr homeTeam)) (Some (QStr awayTeam)) type s)
         = snd (spec_first_hit (spec_search env type) (spec_strategy_plan homeTeam awayTeam) s)"
    unfolding h using 1 2 by (simp add: fst_apfst snd_apfst)
qed

lemmas search_eval =
  guardian_match_handler_def guardian_match_search_def full_names_step_def unquoted_step_def
  falsy_query_def template_def or_val_def longer_than_one_def loop_bound_def searchOptions_def
  quoted_and_def dq_def has_articles_def
  searchGuardianArticles_def Date_now_def article_cache_hit_def Let_def
  fetchGuardianData_def fetchGuardianData_try_def guardian_request_def GUARDIAN_API_BASE_def
  spread_def response_ok_def js_or_def request_query_def initial_state_def

lemma constructor_variations: "getTeamVariations (QStr ''constructor'') = Inherited (Some 1)"
  by (simp add: getTeamVariations_def TEAM_NAME_VARIATIONS_def OBJECT_PROTOTYPE_def)

lemma arsenal_variations: "getTeamVariations (QStr ''Arsenal'') = Variants [''Arsenal'']"
  by (simp add: getTeamVariations_def TEAM_NAME_VARIATIONS_def)

lemma newcastle_array_variations:
  "getTeamVariations (QArr [QStr ''Newcastle'']) = Variants [''Newcastle'', ''Newcastle United'']"
  by (simp add: getTeamVariations_def TEAM_NAME_VARIATIONS_def)

lemma show_1: "show_nat (Suc 0) = ''1''"
  by code_simp

lemma show_2: "show_nat (Suc (Suc 0)) = ''2''"
  by code_simp

lemma plan_for_spurs:
  "spec_strategy_plan ''Spurs'' ''Newcastle''
     = [(''exact'', spec_exact_phrases ''Spurs'' ''Newcastle''),
        (''full-names'', spec_exact_phrases ''Tottenham'' ''Newcastle''),
        (''unquoted'', ''Tottenham Newcastle''),
        (''variation-1'', spec_exact_phrases ''Spurs'' ''Newcastle United''),
        (''variation-2'', spec_exact_phrases ''Tottenham Hotspur'' ''Newcastle'')]"
proof -
  have u: "[1 ..< 3] = [1, 2::nat]" by (simp add: upt_rec)
  show ?thesis
    by (simp add: spec_strategy_plan_def spec_preferred_def spec_variantsFor_def spec_ith_variant_def
      TEAM_NAME_VARIATIONS_def show_1 show_2 u)
qed


lemma plan_for_spurs_man_utd:
  "spec_strategy_plan ''Spurs'' ''Man Utd''
     = [(''exact'', spec_exact_phrases ''Spurs'' ''Man Utd''),
        (''full-names'', spec_exact_phrases ''Tottenham'' ''Manchester United''),
        (''unquoted'', ''Tottenham Manchester United''),
        (''variation-1'', spec_exact_phrases ''Spurs'' ''Man Utd''),
        (''variation-2'', spec_exact_phrases ''Tottenham Hotspur'' ''Manchester Utd'')]"
proof -
  have u: "[1 ..< 3] = [1, 2::nat]" by (simp add: upt_rec)
  show ?thesis
    by (simp add: spec_strategy_plan_def spec_preferred_def spec_variantsFor_def spec_ith_variant_def
      TEAM_NAME_VARIATIONS_def show_1 show_2 u)
qed

lemma match_search_example:
  "answer_of (fst (guardian_match_handler env_unquoted (Some (QStr ''Spurs'')) (Some (QStr ''Man Utd''))
                     (Some (QStr ''report'')) initial_state))
     = Some \<lparr>answer_articles = [example_article], answer_total = JNum 1,
             answer_strategy = ''unquoted''\<rparr>
   \<and> map request_query
       (sent (snd (guardian_match_handler env_unquoted (Some (QStr ''Spurs'')) (Some (QStr ''Man Utd''))
                     (Some (QStr ''report'')) initial_state)))
     = [JStr (spec_exact_phrases ''Spurs'' ''Man Utd''),
        JStr (spec_exact_phrases ''Tottenham'' ''Manchester United''),
        JStr ''Tottenham Manchester United'']"
proof -
  have i: "\<not> inherited_name ''Spurs'' \<and> \<not> inherited_name ''Man Utd''"
    by (simp add: inherited_name_def TEAM_NAME_VARIATIONS_def)
  have f: "fst (spec_first_hit (spec_search env_unquoted (Some (QStr ''report'')))
             (spec_strategy_plan ''Spurs'' ''Man Utd'') initial_state)
           = \<lparr>answer_articles = [example_article], answer_total = JNum 1,
                answer_strategy = ''unquoted''\<rparr>"
    unfolding plan_for_spurs_man_utd
    by (simp add: spec_search_def spec_options_def spec_articles_def spec_total_def
      spec_exact_phrases_def searchGuardianArticles_def Date_now_def article_cache_hit_def Let_def
      fetchGuardianData_def fetchGuardianData_try_def response_ok_def env_unquoted_def
      initial_state_def)
  have q: "map request_query (sent (snd (spec_first_hit (spec_search env_unquoted (Some (QStr ''report'')))
                (spec_strategy_plan ''Spurs'' ''Man Utd'') initial_state)))
     = [JStr (spec_exact_phrases ''Spurs'' ''Man Utd''),
        JStr (spec_exact_phrases ''Tottenham'' ''Manchester United''),
        JStr ''Tottenham Manchester United'']"
    unfolding plan_for_spurs_man_utd
    by (simp add: spec_search_def spec_options_def spec_articles_def spec_total_def
      spec_exact_phrases_def searchGuardianArticles_def Date_now_def article_cache_hit_def Let_def
      fetchGuardianData_def fetchGuardianData_try_def response_ok_def env_unquoted_def
      initial_state_def guardian_request_def spread_def js_or_def request_query_def)
  from match_search_follows_plan[of "''Spurs''" "''Man Utd''" env_unquoted "Some (QStr ''report'')"
      initial_state] i
  have "answer_of (fst (guardian_match_handler env_unquoted (Some (QStr ''Spurs''))
           (Some (QStr ''Man Utd'')) (Some (QStr ''report'')) initial_state))
         = Some (fst (spec_first_hit (spec_search env_unquoted (Some (QStr ''report'')))
                   (spec_strategy_plan ''Spurs'' ''Man Utd'') initial_state))"
    and "snd (guardian_match_handler env_unquoted (Some (QStr ''Spurs''))
           (Some (QStr ''Man Utd'')) (Some (QStr ''report'')) initial_state)
         = snd (spec_first_hit (spec_search env_unquoted (Some (QStr ''report'')))
                   (spec_strategy_plan ''Spurs'' ''Man Utd'') initial_state)"
    by simp_all
  with f q show ?thesis by simp
qed

text \<open>The plan of the specification for the two requests below: the unquoted query of
  \<open>constructor\<close> against Arsenal is \<open>constructor Arsenal\<close>, and Newcastle against Arsenal
  has three strategies, full-names not among them.\<close>

lemma plan_for_constructor:
  "spec_strategy_plan ''constructor'' ''Arsenal''
     = [(''exact'', spec_exact_phrases ''constructor'' ''Arsenal''),
        (''unquoted'', ''constructor Arsenal'')]"
  by (simp add: spec_strategy_plan_def spec_preferred_def spec_variantsFor_def
      TEAM_NAME_VARIATIONS_def)

lemma plan_for_newcastle:
  "spec_strategy_plan ''Newcastle'' ''Arsenal''
     = [(''exact'', spec_exact_phrases ''Newcastle'' ''Arsenal''),
        (''unquoted'', ''Newcastle Arsenal''),
        (''variation-1'', spec_exact_phrases ''Newcastle United'' ''Arsenal'')]"
  by (simp add: spec_strategy_plan_def spec_preferred_def spec_variantsFor_def spec_ith_variant_def
      TEAM_NAME_VARIATIONS_def show_1)

text \<open>
  C1 fails on the code. For \<open>homeTeam=constructor\<close>, \<open>awayTeam=Arsenal\<close> and a news
  provider that has no article for any query, the searches are the exact query and
  then the unquoted query \<open>undefined Arsenal\<close>, and the answer is \<open>none\<close>:
  \<open>getTeamVariations\<close> returns the function \<open>Object\<close> inherited from \<open>Object.prototype\<close>
  instead of the name, and its first variant is \<open>undefined\<close>. For
  \<open>homeTeam[]=Newcastle\<close>, \<open>awayTeam=Arsenal\<close> the name arrives as a one-element array;
  its preferred variant \<open>Newcastle\<close> is the name supplied, yet the full-names strategy is
  attempted, with the query of the exact strategy: with a news provider that answers
  every request with status 500, so that every search is a request, four requests are
  sent where the plan has three strategies.
\<close>

theorem C1_inherited_name_searches_undefined:
  "map request_query
     (sent (snd (guardian_match_handler env_no_articles (Some (QStr ''constructor''))
                   (Some (QStr ''Arsenal'')) None initial_state)))
     = [JStr (dq @ ''constructor'' @ dq @ '' AND '' @ dq @ ''Arsenal'' @ dq),
        JStr ''undefined Arsenal'']
   \<and> opt_member (reply_body (fst (guardian_match_handler env_no_articles
          (Some (QStr ''constructor'')) (Some (QStr ''Arsenal'')) None initial_state)))
        ''searchStrategy'' = JStr ''none''
   \<and> map request_query
       (sent (snd (guardian_match_handler env_guardian_down (Some (QArr [QStr ''Newcastle'']))
                     (Some (QStr ''Arsenal'')) None initial_state)))
     = [JStr (dq @ ''Newcastle'' @ dq @ '' AND '' @ dq @ ''Arsenal'' @ dq),
        JStr (dq @ ''Newcastle'' @ dq @ '' AND '' @ dq @ ''Arsenal'' @ dq),
        JStr ''Newcastle Arsenal'',
        JStr (dq @ ''Newcastle United'' @ dq @ '' AND '' @ dq @ ''Arsenal'' @ dq)]"
proof -
  have 1: "map request_query
     (sent (snd (guardian_match_handler env_no_articles (Some (QStr ''constructor''))
                   (Some (QStr ''Arsenal'')) None initial_state)))
     = [JStr (dq @ ''constructor'' @ dq @ '' AND '' @ dq @ ''Arsenal'' @ dq),
        JStr ''undefined Arsenal'']"
    by (simp add: search_eval constructor_variations arsenal_variations variation_loop.simps
        env_no_articles_def)
  have 2: "opt_member (reply_body (fst (guardian_match_handler env_no_articles
          (Some (QStr ''constructor'')) (Some (QStr ''Arsenal'')) None initial_state)))
        ''searchStrategy'' = JStr ''none''"
    by (simp add: search_eval constructor_variations arsenal_variations variation_loop.simps
        env_no_articles_def none_reply_def)
  have 3: "map request_query
       (sent (snd (guardian_match_handler env_guardian_down (Some (QArr [QStr ''Newcastle'']))
                     (Some (QStr ''Arsenal'')) None initial_state)))
     = [JStr (dq @ ''Newcastle'' @ dq @ '' AND '' @ dq @ ''Arsenal'' @ dq),
        JStr (dq @ ''Newcastle'' @ dq @ '' AND '' @ dq @ ''Arsenal'' @ dq),
        JStr ''Newcastle Arsenal'',
        JStr (dq @ ''Newcastle United'' @ dq @ '' AND '' @ dq @ ''Arsenal'' @ dq)]"
    by (simp add: search_eval newcastle_array_variations arsenal_variations variation_loop.simps
        env_guardian_down_def)
  from 1 2 3 show ?thesis by (intro conjI)
qed

end
